theory Spec2Isabelle
  imports Complex_Main
begin

section \<open>Formatting integers as Python does\<close>

text \<open>
  The name-collision loop of \<open>add_image\<close> builds candidate names with the f-string
  \<^verbatim>\<open>f'{new_image_name}.{counter}'\<close>, that is the name, a dot and \<open>str(counter)\<close>.
  Python integers are unbounded, so the counter is an \<open>int\<close>; \<open>str_int\<close> is the decimal
  representation \<open>str\<close> gives (no leading zeros, a minus sign for negative numbers).
\<close>

definition digit_char :: "nat \<Rightarrow> char" where
  "digit_char d = char_of (48 + d)"

fun str_nat :: "nat \<Rightarrow> string" where
  "str_nat n = (if n < 10 then [digit_char n] else str_nat (n div 10) @ [digit_char (n mod 10)])"

declare str_nat.simps [simp del]

definition str_int :: "int \<Rightarrow> string" where
  "str_int i = (if i < 0 then CHR ''-'' # str_nat (nat (- i)) else str_nat (nat i))"

definition suffixed :: "string \<Rightarrow> int \<Rightarrow> string" where
  \<comment> \<open>\<^verbatim>\<open>f'{new_image_name}.{counter}'\<close>\<close>
  "suffixed name counter = name @ ''.'' @ str_int counter"

lemma digit_char_inj: "a < 10 \<Longrightarrow> b < 10 \<Longrightarrow> digit_char a = digit_char b \<Longrightarrow> a = b"
proof -
  assume a: "a < 10" and b: "b < 10" and eq: "digit_char a = digit_char b"
  from eq have "(of_char (digit_char a) :: nat) = of_char (digit_char b)" by simp
  with a b show "a = b" by (simp add: digit_char_def)
qed

lemma digit_char_not_minus: "d < 10 \<Longrightarrow> digit_char d \<noteq> CHR ''-''"
proof
  assume d: "d < 10" and eq: "digit_char d = CHR ''-''"
  from eq have "(of_char (digit_char d) :: nat) = of_char (CHR ''-'')" by simp
  with d show False by (simp add: digit_char_def)
qed

lemma str_nat_nonempty: "str_nat n \<noteq> []"
  by (subst str_nat.simps) simp

lemma str_nat_length_ge2: "10 \<le> n \<Longrightarrow> 2 \<le> length (str_nat n)"
proof -
  assume "10 \<le> n"
  moreover have "1 \<le> length (str_nat (n div 10))"
    using str_nat_nonempty [of "n div 10"] by (cases "str_nat (n div 10)") simp_all
  ultimately show ?thesis by (subst str_nat.simps) simp
qed

lemma str_nat_no_minus: "CHR ''-'' \<notin> set (str_nat n)"
proof (induction n rule: str_nat.induct)
  case (1 n)
  show ?case
  proof (cases "n < 10")
    case True
    then show ?thesis
      using digit_char_not_minus [of n] by (subst str_nat.simps) auto
  next
    case False
    have "n mod 10 < 10" by simp
    then have "digit_char (n mod 10) \<noteq> CHR ''-''" by (rule digit_char_not_minus)
    with False "1.IH" show ?thesis by (subst str_nat.simps) auto
  qed
qed

lemma str_nat_inj: "str_nat n = str_nat m \<Longrightarrow> n = m"
proof (induction n arbitrary: m rule: str_nat.induct)
  case (1 n)
  show ?case
  proof (cases "n < 10")
    case small_n: True
    show ?thesis
    proof (cases "m < 10")
      case True
      with small_n "1.prems" show ?thesis
        by (simp add: str_nat.simps [of n] str_nat.simps [of m] digit_char_inj)
    next
      case False
      then have "2 \<le> length (str_nat m)" by (simp add: str_nat_length_ge2)
      moreover from small_n have "length (str_nat n) = 1" by (simp add: str_nat.simps [of n])
      ultimately show ?thesis using "1.prems" by simp
    qed
  next
    case big_n: False
    show ?thesis
    proof (cases "m < 10")
      case True
      then have "length (str_nat m) = 1" by (simp add: str_nat.simps [of m])
      moreover from big_n have "2 \<le> length (str_nat n)" by (simp add: str_nat_length_ge2)
      ultimately show ?thesis using "1.prems" by simp
    next
      case False
      with big_n "1.prems"
      have eq: "str_nat (n div 10) @ [digit_char (n mod 10)]
                = str_nat (m div 10) @ [digit_char (m mod 10)]"
        by (simp add: str_nat.simps [of n] str_nat.simps [of m])
      then have front: "str_nat (n div 10) = str_nat (m div 10)"
        and last_digit: "digit_char (n mod 10) = digit_char (m mod 10)" by simp_all
      from front big_n have "n div 10 = m div 10" by (intro "1.IH") simp_all
      moreover from last_digit have "n mod 10 = m mod 10" by (intro digit_char_inj) simp_all
      ultimately show ?thesis by (metis div_mult_mod_eq)
    qed
  qed
qed

lemma str_int_inj: "str_int i = str_int j \<Longrightarrow> i = j"
proof -
  assume eq: "str_int i = str_int j"
  have hd_pos: "\<And>n. hd (str_nat n) \<noteq> CHR ''-''"
  proof -
    fix n
    have "hd (str_nat n) \<in> set (str_nat n)" by (simp add: str_nat_nonempty)
    with str_nat_no_minus [of n] show "hd (str_nat n) \<noteq> CHR ''-''" by metis
  qed
  show "i = j"
  proof (cases "i < 0")
    case neg_i: True
    show ?thesis
    proof (cases "j < 0")
      case True
      with neg_i eq have "str_nat (nat (- i)) = str_nat (nat (- j))" by (simp add: str_int_def)
      then have "nat (- i) = nat (- j)" by (rule str_nat_inj)
      with neg_i True show ?thesis by simp
    next
      case False
      with neg_i eq have "CHR ''-'' # str_nat (nat (- i)) = str_nat (nat j)"
        by (simp add: str_int_def)
      then have "hd (str_nat (nat j)) = CHR ''-''" by (metis list.sel(1))
      with hd_pos show ?thesis by simp
    qed
  next
    case pos_i: False
    show ?thesis
    proof (cases "j < 0")
      case True
      with pos_i eq have "str_nat (nat i) = CHR ''-'' # str_nat (nat (- j))"
        by (simp add: str_int_def)
      then have "hd (str_nat (nat i)) = CHR ''-''" by (metis list.sel(1))
      with hd_pos show ?thesis by simp
    next
      case False
      with pos_i eq have "str_nat (nat i) = str_nat (nat j)" by (simp add: str_int_def)
      then have "nat i = nat j" by (rule str_nat_inj)
      with pos_i False show ?thesis by simp
    qed
  qed
qed

lemma suffixed_inj: "suffixed name i = suffixed name j \<Longrightarrow> i = j"
  by (simp add: suffixed_def str_int_inj)

lemma suffixed_neq_name: "suffixed name i \<noteq> name"
  by (simp add: suffixed_def)

lemma finite_suffixed_in: "finite {c. suffixed name c \<in> set installed}"
proof -
  have "inj (suffixed name)" by (rule injI) (rule suffixed_inj)
  then have "finite (suffixed name -` set installed)" by (intro finite_vimageI) simp_all
  then show ?thesis by (simp add: vimage_def)
qed

section \<open>Image name collision resolution\<close>

text \<open>
  \<^verbatim>\<open>
  installed_images = image.get_images()
  if new_image_name in installed_images:
      counter = 1
      while f'{new_image_name}.{counter}' in installed_images:
          counter += 1
      new_image_name = f'{new_image_name}.{counter}'
  \<close>
  \<open>find_counter\<close> is the while loop from an arbitrary counter value, \<open>resolve_name\<close> the
  whole block. The list of installed images is finite and \<open>str\<close> is injective, so only
  finitely many counters are taken: the number of taken counters from the current one
  upwards is what decreases.
\<close>

function find_counter :: "string \<Rightarrow> string list \<Rightarrow> int \<Rightarrow> int" where
  "find_counter name installed counter =
     (if suffixed name counter \<in> set installed
      then find_counter name installed (counter + 1)
      else counter)"
  by pat_completeness auto
termination
proof (relation "measure (\<lambda>(name, installed, counter).
         card {c. counter \<le> c \<and> suffixed name c \<in> set installed})")
  show "wf (measure (\<lambda>(name, installed, counter).
         card {c. counter \<le> c \<and> suffixed name c \<in> set installed}))" by simp
next
  fix name :: string and installed :: "string list" and counter :: int
  assume taken: "suffixed name counter \<in> set installed"
  let ?A = "{c. counter \<le> c \<and> suffixed name c \<in> set installed}"
  let ?B = "{c. counter + 1 \<le> c \<and> suffixed name c \<in> set installed}"
  have fin: "finite ?A"
    by (rule finite_subset [OF _ finite_suffixed_in [of name installed]]) auto
  from taken have "counter \<in> ?A" and "counter \<notin> ?B" by simp_all
  moreover have "?B \<subseteq> ?A" by auto
  ultimately have "?B \<subset> ?A" by blast
  with fin have "card ?B < card ?A" by (rule psubset_card_mono)
  then show "((name, installed, counter + 1), (name, installed, counter))
      \<in> measure (\<lambda>(name, installed, counter).
         card {c. counter \<le> c \<and> suffixed name c \<in> set installed})" by simp
qed

declare find_counter.simps [simp del]

definition resolve_name :: "string \<Rightarrow> string list \<Rightarrow> string" where
  "resolve_name new_image_name installed_images =
     (if new_image_name \<in> set installed_images
      then suffixed new_image_name (find_counter new_image_name installed_images 1)
      else new_image_name)"

section \<open>Exceptions, floats and the root partition size\<close>

text \<open>
  Python's control flow by exception is made explicit. \<open>exit(arg)\<close> (\<open>sys.exit\<close>) raises
  \<open>SystemExit\<close>, which like \<open>KeyboardInterrupt\<close> is not an \<open>Exception\<close> and so passes every
  \<^verbatim>\<open>except Exception\<close> clause of the script. \<open>Exception s\<close> stands for any exception of
  class \<open>Exception\<close> whose text \<open>str(err)\<close> is \<open>s\<close>.
\<close>

datatype exit_arg = Exit_none | Exit_msg string | Exit_code int

datatype exn = Exception string | KeyboardInterrupt | SystemExit exit_arg

text \<open>
  \<open>--root-size-gb\<close> is parsed with \<open>type=float\<close>. A finite double is a rational number; the
  three other values \<open>float()\<close> accepts are kept apart. Multiplying a double by \<open>1024**3\<close>
  is exact unless the product leaves the range of doubles (magnitude \<open>2^1024\<close> or more),
  where it becomes an infinity; \<open>int()\<close> truncates towards zero and raises on an infinity
  (OverflowError) and on NaN (ValueError).
\<close>

datatype pyfloat = Finite rat | PosInf | NegInf | NaN

definition CONST_MIN_DISK_SIZE :: int where "CONST_MIN_DISK_SIZE = 2147483648"
definition CONST_MIN_ROOT_SIZE :: int where "CONST_MIN_ROOT_SIZE = 1610612736"

definition float_truthy :: "pyfloat \<Rightarrow> bool" where
  \<comment> \<open>\<open>bool(x)\<close> of a float: false for zero only\<close>
  "float_truthy x = (case x of Finite q \<Rightarrow> q \<noteq> 0 | _ \<Rightarrow> True)"

definition gb_to_bytes :: "pyfloat \<Rightarrow> exn + int" where
  "gb_to_bytes size_gb =
     (case size_gb of
        Finite q \<Rightarrow>
          (let p = q * 1024 ^ 3 in
           if 2 ^ 1024 \<le> \<bar>p\<bar> then Inl (Exception ''cannot convert float infinity to integer'')
           else Inr (if p < 0 then - \<lfloor>- p\<rfloor> else \<lfloor>p\<rfloor>))
      | NaN \<Rightarrow> Inl (Exception ''cannot convert float NaN to integer'')
      | _ \<Rightarrow> Inl (Exception ''cannot convert float infinity to integer''))"

definition MSG_INVALID_ROOT_SIZE :: "string \<Rightarrow> string" where
  "MSG_INVALID_ROOT_SIZE gb = ''Invalid root size, using all available space: '' @ gb @ '' GB''"

text \<open>
  \<^verbatim>\<open>
  def ask_root_size(available_space, no_prompt=False, root_size_gb=None):
      if no_prompt:
          if root_size_gb:
              root_size = gb_to_bytes(root_size_gb)
              if root_size < CONST_MIN_ROOT_SIZE or root_size > available_space:
                  print(f'Invalid root size, using all available space: {bytes_to_gb(available_space)} GB')
                  return available_space
              return root_size
          return available_space
      return available_space
  \<close>
  The result is the value returned (or the exception raised) and the lines printed. The
  text that \<open>bytes_to_gb\<close> and the formatting of a float give for a size is the parameter
  \<open>gb_text\<close>: no claim depends on it.
\<close>

definition ask_root_size ::
  "(int \<Rightarrow> string) \<Rightarrow> int \<Rightarrow> bool \<Rightarrow> pyfloat option \<Rightarrow> (exn + int) \<times> string list" where
  "ask_root_size gb_text available_space no_prompt root_size_gb =
     (if no_prompt then
        (case root_size_gb of
           None \<Rightarrow> (Inr available_space, [])
         | Some size_gb \<Rightarrow>
             if float_truthy size_gb then
               (case gb_to_bytes size_gb of
                  Inl err \<Rightarrow> (Inl err, [])
                | Inr root_size \<Rightarrow>
                    if root_size < CONST_MIN_ROOT_SIZE \<or> root_size > available_space
                    then (Inr available_space, [MSG_INVALID_ROOT_SIZE (gb_text available_space)])
                    else (Inr root_size, []))
             else (Inr available_space, []))
      else (Inr available_space, []))"

section \<open>The system the installer acts on\<close>

text \<open>
  The script orchestrates external collaborators (\<open>vyos.system.disk\<close>, \<open>grub\<close>, \<open>image\<close>,
  \<open>vyos.remote\<close>, the file system). None of them is part of the script; each is modelled
  by what the script reads from it (the record \<open>env\<close>, fixed during a run) and by its
  effect on the state it changes (the record \<open>world\<close>). Every call of a collaborator may
  fail: \<open>fault e p\<close> tells whether the call \<open>p\<close> raises an \<open>Exception\<close> with some text or
  is hit by the user's interrupt, in which case it has no effect.
\<close>

datatype fault = Fails string | Interrupted

datatype ptype = EFI | LINUX

datatype disk_op =
    Disk_cleanup string
  | Parttable_create string string
  | Partition_create string int ptype
  | Filesystem_create ptype string

datatype prim =
    Is_live_boot | Unsaved_commits | Get_version_data | Disks_size | Hash | Disk_size
  | Disk_op disk_op
  | Mkdir string | Mount string | Umount string | Remove string
  | Device_list | Iterdir | Copy_file string | Write_file string
  | Grub_install | Set_console_type | Version_add | Set_default | Sync
  | Download | Read_version | Get_default_image_name | Get_images | Disk_find_persistence

record env =
  fault :: "prim \<Rightarrow> fault option"
  is_live_boot :: bool
  unsaved_commits :: bool
  mem_total :: "int option"
  disks_size :: "string list"
  disk_size :: "string \<Rightarrow> int"
  hash :: "string \<Rightarrow> string"
  device_list :: "string list"
  parttable_partitions_list :: "string \<Rightarrow> (string \<rightharpoonup> string) list"
  current_version_data :: "string \<rightharpoonup> string"
  iso_version_data :: "(string \<rightharpoonup> string) option"
  live_files :: "string list"
  squashfs_exists :: bool
  get_default_image_name :: "string \<Rightarrow> string"
  get_images :: "string list"
  disk_find_persistence :: "string option"
  url_scheme :: "string \<Rightarrow> string"
  gb_text :: "int \<Rightarrow> string"

text \<open>
  \<open>mounts\<close> are the mount points in use, the latest first; \<open>paths\<close> the files and
  directories that exist; \<open>disk_log\<close> the destructive disk operations done so far;
  \<open>grub_versions\<close>, \<open>grub_default\<close> (the Default Pointer) and \<open>grub_console\<close> the boot
  loader's configuration under each root directory; \<open>stdout\<close> the lines printed.
\<close>

record world =
  mounts :: "string list"
  paths :: "string list"
  files :: "string \<rightharpoonup> string"
  disk_log :: "disk_op list"
  grub_installed :: "string list"
  grub_versions :: "string \<Rightarrow> string list"
  grub_default :: "string \<rightharpoonup> string"
  grub_console :: "string \<rightharpoonup> string"
  stdout :: "string list"

definition MSG_ERR_NOT_LIVE :: string where
  "MSG_ERR_NOT_LIVE = ''The system is already installed. Please use \"add system image\" instead.''"
definition MSG_ERR_LIVE :: string where
  "MSG_ERR_LIVE = ''The system is in live-boot mode. Please use \"install image\" instead.''"
definition MSG_ERR_UNSAVED_COMMITS :: string where
  "MSG_ERR_UNSAVED_COMMITS =
     ''There are unsaved changes to the configuration. Either save or revert before upgrade.''"
definition MSG_ERR_NO_DISK :: string where
  "MSG_ERR_NO_DISK =
     ''No suitable disk was found. There must be at least one disk of 2GB or greater size.''"
definition MSG_INFO_INSTALL_WELCOME :: string where
  "MSG_INFO_INSTALL_WELCOME =
     ''Welcome to VyOS installation!'' @ [CHR 0x0A]
     @ ''This command will install VyOS to your permanent storage.''"
definition MSG_INFO_INSTALL_SUCCESS :: string where
  "MSG_INFO_INSTALL_SUCCESS = ''The image installed successfully; please reboot now.''"
definition MSG_INFO_INSTALL_DISK_CONFIRM :: string where
  "MSG_INFO_INSTALL_DISK_CONFIRM = ''Installation will delete all data on the drive. Continue?''"
definition MSG_INFO_INSTALL_PARTITONING :: string where
  "MSG_INFO_INSTALL_PARTITONING = ''Creating partition table...''"
definition MSG_WARN_FLAVOR_MISMATCH_PREFIX :: string where
  \<comment> \<open>the text of \<open>MSG_WARN_FLAVOR_MISMATCH\<close> before its first placeholder\<close>
  "MSG_WARN_FLAVOR_MISMATCH_PREFIX = ''The current image flavor is \"''"
definition MSG_WARN_CONSOLE_TYPE_INVALID :: string where
  "MSG_WARN_CONSOLE_TYPE_INVALID = ''Invalid console type. Using default KVM console.''"
definition MSG_LOWMEM_WARNING :: string where
  "MSG_LOWMEM_WARNING =
     ''Your system has less than 4GB of RAM, installation may fail if you continue. ''
     @ ''Please consider closing other programs to free up memory.''"

definition DIR_ISO_MOUNT :: string where "DIR_ISO_MOUNT = ''/mnt/iso''"
definition DIR_INSTALLATION :: string where "DIR_INSTALLATION = ''/mnt/installation''"
definition DIR_ROOTFS_SRC :: string where "DIR_ROOTFS_SRC = DIR_ISO_MOUNT @ ''/live''"
definition FILE_ROOTFS_SRC :: string where
  "FILE_ROOTFS_SRC = DIR_ROOTFS_SRC @ ''/filesystem.squashfs''"

subsection \<open>Commands\<close>

text \<open>
  A statement of the script is a command: it takes the world and gives the world it
  leaves, together with the exception it raised, if any. \<open>run\<close> is a sequence of
  statements: it stops at the first one that raises.
\<close>

type_synonym cmd = "world \<Rightarrow> exn option \<times> world"

definition exn_of :: "fault \<Rightarrow> exn" where
  "exn_of f = (case f of Fails err \<Rightarrow> Exception err | Interrupted \<Rightarrow> KeyboardInterrupt)"

definition ext :: "env \<Rightarrow> prim \<Rightarrow> (world \<Rightarrow> world) \<Rightarrow> cmd" where
  \<comment> \<open>a call of an external collaborator with the given effect\<close>
  "ext e p effect w = (case fault e p of Some f \<Rightarrow> (Some (exn_of f), w) | None \<Rightarrow> (None, effect w))"

definition say :: "string \<Rightarrow> world \<Rightarrow> world" where
  "say s w = w\<lparr>stdout := stdout w @ [s]\<rparr>"

definition print :: "string \<Rightarrow> cmd" where
  "print s w = (None, say s w)"

definition raise :: "exn \<Rightarrow> cmd" where
  "raise x w = (Some x, w)"

definition skip :: cmd where
  "skip w = (None, w)"

definition only_if :: "bool \<Rightarrow> cmd \<Rightarrow> cmd" where
  "only_if b c = (if b then c else skip)"

fun run :: "cmd list \<Rightarrow> cmd" where
  "run [] w = (None, w)"
| "run (c # cs) w = (case c w of (None, w') \<Rightarrow> run cs w' | (Some x, w') \<Rightarrow> (Some x, w'))"

subsection \<open>Effects of the collaborators\<close>

definition mkdir :: "string \<Rightarrow> world \<Rightarrow> world" where
  \<comment> \<open>\<open>Path(p).mkdir(parents=True, exist_ok=True)\<close>; only the directory named is tracked\<close>
  "mkdir p w = (if p \<in> set (paths w) then w else w\<lparr>paths := p # paths w\<rparr>)"

definition add_file :: "string \<Rightarrow> world \<Rightarrow> world" where
  "add_file p w = (if p \<in> set (paths w) then w else w\<lparr>paths := p # paths w\<rparr>)"

definition write_file :: "string \<Rightarrow> string \<Rightarrow> world \<Rightarrow> world" where
  "write_file p content w = (add_file p w)\<lparr>files := (files w)(p \<mapsto> content)\<rparr>"

definition partition_mount :: "string \<Rightarrow> world \<Rightarrow> world" where
  "partition_mount mount_point w = w\<lparr>mounts := mount_point # mounts w\<rparr>"

definition partition_umount :: "string \<Rightarrow> world \<Rightarrow> world" where
  "partition_umount mount_point w = w\<lparr>mounts := remove1 mount_point (mounts w)\<rparr>"

definition under :: "string \<Rightarrow> string \<Rightarrow> bool" where
  \<comment> \<open>\<open>q\<close> is \<open>p\<close> or lies in the directory tree of \<open>p\<close>\<close>
  "under p q = (q = p \<or> take (length p + 1) q = p @ ''/'')"

definition remove_path :: "string \<Rightarrow> world \<Rightarrow> world" where
  \<comment> \<open>\<open>Path(p).unlink()\<close> for a file, \<open>rmtree(p)\<close> for a directory\<close>
  "remove_path p w = w\<lparr>paths := filter (\<lambda>q. \<not> under p q) (paths w)\<rparr>"

definition do_disk :: "disk_op \<Rightarrow> world \<Rightarrow> world" where
  "do_disk op w = w\<lparr>disk_log := disk_log w @ [op]\<rparr>"

definition grub_install :: "string \<Rightarrow> world \<Rightarrow> world" where
  "grub_install d w = w\<lparr>grub_installed := grub_installed w @ [d]\<rparr>"

definition grub_set_console_type :: "string \<Rightarrow> string \<Rightarrow> world \<Rightarrow> world" where
  "grub_set_console_type console_type root_dir w =
     w\<lparr>grub_console := (grub_console w)(root_dir \<mapsto> console_type)\<rparr>"

definition grub_version_add :: "string \<Rightarrow> string \<Rightarrow> world \<Rightarrow> world" where
  "grub_version_add name root_dir w =
     w\<lparr>grub_versions := (grub_versions w)(root_dir := grub_versions w root_dir @ [name])\<rparr>"

definition grub_set_default :: "string \<Rightarrow> string \<Rightarrow> world \<Rightarrow> world" where
  "grub_set_default name root_dir w = w\<lparr>grub_default := (grub_default w)(root_dir \<mapsto> name)\<rparr>"

text \<open>
  Modelled from the spec: \<open>vyos.remote.download\<close> is not part of the script. The spec
  has it "download to a temporary location"; the script passes \<^verbatim>\<open>/tmp/vyos_image.iso\<close>
  as that location and uses what the call returns as the path of the image. A download
  that succeeds creates that file and returns its path.
\<close>

definition FILE_DOWNLOAD :: string where "FILE_DOWNLOAD = ''/tmp/vyos_image.iso''"

definition download :: "world \<Rightarrow> world" where
  "download w = add_file FILE_DOWNLOAD w"

subsection \<open>try, except and finally\<close>

definition try_except :: "cmd \<Rightarrow> (string \<Rightarrow> cmd) \<Rightarrow> cmd" where
  \<comment> \<open>\<^verbatim>\<open>try: c  except Exception as err: handler\<close>\<close>
  "try_except c handler w =
     (case c w of (Some (Exception err), w') \<Rightarrow> handler err w' | r \<Rightarrow> r)"

definition try_finally :: "cmd \<Rightarrow> cmd \<Rightarrow> cmd" where
  \<comment> \<open>\<^verbatim>\<open>try: c  finally: f\<close>: an exception of \<open>f\<close> replaces the pending one\<close>
  "try_finally c f w =
     (case c w of (r, w') \<Rightarrow> (case f w' of (Some x, w'') \<Rightarrow> (Some x, w'') | (None, w'') \<Rightarrow> (r, w'')))"

section \<open>The script\<close>

subsection \<open>cleanup\<close>

text \<open>
  \<^verbatim>\<open>
  def cleanup(mounts=[], remove_items=[]):
      print('Cleaning up')
      if not remove_items:
          remove_items = [DIR_INSTALLATION]
      for mount in mounts:
          try: disk.partition_umount(mount)
          except Exception as err: print(f'Failed to umount {mount}: {err}')
      for remove_item in remove_items:
          try:
              if Path(remove_item).exists():
                  if Path(remove_item).is_file(): Path(remove_item).unlink()
                  else: rmtree(remove_item)
          except Exception as err: print(f'Failed to remove {remove_item}: {err}')
  \<close>
\<close>

definition umount_one :: "env \<Rightarrow> string \<Rightarrow> cmd" where
  "umount_one e mount =
     try_except (ext e (Umount mount) (partition_umount mount))
       (\<lambda>err. print (''Failed to umount '' @ mount @ '': '' @ err))"

definition remove_one :: "env \<Rightarrow> string \<Rightarrow> cmd" where
  "remove_one e remove_item =
     try_except
       (\<lambda>w. if remove_item \<in> set (paths w)
            then ext e (Remove remove_item) (remove_path remove_item) w
            else skip w)
       (\<lambda>err. print (''Failed to remove '' @ remove_item @ '': '' @ err))"

definition cleanup :: "env \<Rightarrow> string list \<Rightarrow> string list \<Rightarrow> cmd" where
  "cleanup e mounts_arg remove_items =
     run ([print ''Cleaning up'']
          @ map (umount_one e) mounts_arg
          @ map (remove_one e) (if remove_items = [] then [DIR_INSTALLATION] else remove_items))"

subsection \<open>find_persistence and ask_single_disk\<close>

fun find_persistence_in :: "(string \<rightharpoonup> string) list \<Rightarrow> string option option" where
  \<comment> \<open>the inner loop: \<open>Some r\<close> when it returns \<open>r = partition.get('disk')\<close>\<close>
  "find_persistence_in [] = None"
| "find_persistence_in (part # ps) =
     (if part ''name'' = Some ''persistence'' then Some (part ''disk'')
      else find_persistence_in ps)"

fun find_persistence_from :: "(string \<Rightarrow> (string \<rightharpoonup> string) list) \<Rightarrow> string list \<Rightarrow> string option" where
  "find_persistence_from parts [] = None"
| "find_persistence_from parts (device # ds) =
     (if parts device \<noteq> [] then
        (case find_persistence_in (parts device) of
           Some r \<Rightarrow> r
         | None \<Rightarrow> find_persistence_from parts ds)
      else find_persistence_from parts ds)"

definition find_persistence :: "env \<Rightarrow> string option" where
  "find_persistence e = find_persistence_from (parttable_partitions_list e) (device_list e)"

definition str_truthy :: "string option \<Rightarrow> bool" where
  \<comment> \<open>\<open>bool(s)\<close> of an optional string: false for \<open>None\<close> and for the empty string\<close>
  "str_truthy s = (case s of None \<Rightarrow> False | Some t \<Rightarrow> t \<noteq> [])"

definition str_or :: "string option \<Rightarrow> string \<Rightarrow> string" where
  \<comment> \<open>the value of \<open>s\<close> after \<^verbatim>\<open>if not s: s = d\<close>\<close>
  "str_or s d = (case s of None \<Rightarrow> d | Some t \<Rightarrow> if t \<noteq> [] then t else d)"

definition ask_single_disk ::
  "string list \<Rightarrow> bool \<Rightarrow> string option \<Rightarrow> (exn + string) \<times> string list" where
  "ask_single_disk disks_available no_prompt target_disk =
     (if no_prompt then
        (case (case target_disk of
                 Some t \<Rightarrow> if t \<noteq> [] \<and> t \<in> set disks_available then [t]
                           else take 1 disks_available
               | None \<Rightarrow> take 1 disks_available) of
           [] \<Rightarrow> (Inl (Exception ''list index out of range''), [])
         | disk_selected # _ \<Rightarrow> (Inr disk_selected, [''Using disk: '' @ disk_selected]))
      else
        (case disks_available of
           [] \<Rightarrow> (Inl (Exception ''list index out of range''), [])
         | d # _ \<Rightarrow> (Inr d, [])))"

subsection \<open>install_image\<close>

definition is_boot_file :: "string \<Rightarrow> bool" where
  \<comment> \<open>\<open>file.match('initrd*') or file.match('vmlinuz*')\<close>\<close>
  "is_boot_file name = (take 6 name = ''initrd'' \<or> take 7 name = ''vmlinuz'')"

definition copy_boot_files :: "env \<Rightarrow> string \<Rightarrow> cmd" where
  \<comment> \<open>the loop over \<open>Path(DIR_ROOTFS_SRC).iterdir()\<close>; \<open>live_files\<close> are its regular files\<close>
  "copy_boot_files e target_dir =
     run (ext e Iterdir id
          # map (\<lambda>name. ext e (Copy_file name) (add_file (target_dir @ ''/'' @ name)))
              (filter is_boot_file (live_files e)))"

definition default_name :: "env \<Rightarrow> (string \<rightharpoonup> string) \<Rightarrow> string" where
  \<comment> \<open>\<open>image.get_default_image_name(version_data.get('version', 'unknown'))\<close>\<close>
  "default_name e version_data =
     get_default_image_name e (case version_data ''version'' of Some v \<Rightarrow> v | None \<Rightarrow> ''unknown'')"

definition config_seed :: "string \<Rightarrow> string" where
  "config_seed user_password =
     ''system {'' @ [CHR 0x0A] @ ''  login {'' @ [CHR 0x0A] @ ''    user vyos {'' @ [CHR 0x0A]
     @ ''      authentication {'' @ [CHR 0x0A] @ ''        encrypted-password \"''
     @ user_password @ ''\"'' @ [CHR 0x0A] @ ''      }'' @ [CHR 0x0A] @ ''    }'' @ [CHR 0x0A]
     @ ''  }'' @ [CHR 0x0A] @ ''}'' @ [CHR 0x0A]"

text \<open>
  \<open>install_image\<close> is one function in the script. Its statements are kept in their order;
  the model names three stretches of them, cut where a value computed by a helper is
  bound: up to the choice of the disk, from there to the size of the root partition
  (script lines 408 to 426), and the rest (lines 428 to 492).
\<close>

definition install_files ::
  "env \<Rightarrow> string \<Rightarrow> string \<Rightarrow> int \<Rightarrow> string option \<Rightarrow> bool \<Rightarrow> string \<Rightarrow> cmd" where
  "install_files e disk_selected user_password root_size image_name set_default console_type =
     (let named = str_truthy image_name;
          image_name = str_or image_name (default_name e (current_version_data e));
          target_dir = DIR_INSTALLATION @ ''/boot/'' @ image_name;
          iso_path = find_persistence e
      in run [
        ext e (Disk_op (Parttable_create disk_selected ''gpt''))
          (do_disk (Parttable_create disk_selected ''gpt'')),
        ext e (Disk_op (Partition_create disk_selected (512 * 1024 * 1024) EFI))
          (do_disk (Partition_create disk_selected (512 * 1024 * 1024) EFI)),
        ext e (Disk_op (Partition_create disk_selected root_size LINUX))
          (do_disk (Partition_create disk_selected root_size LINUX)),
        ext e (Disk_op (Filesystem_create EFI ''vfat'')) (do_disk (Filesystem_create EFI ''vfat'')),
        ext e (Disk_op (Filesystem_create LINUX ''ext4'')) (do_disk (Filesystem_create LINUX ''ext4'')),
        ext e (Mkdir DIR_INSTALLATION) (mkdir DIR_INSTALLATION),
        ext e (Mount DIR_INSTALLATION) (partition_mount DIR_INSTALLATION),
        ext e (Mkdir (DIR_INSTALLATION @ ''/boot/efi'')) (mkdir (DIR_INSTALLATION @ ''/boot/efi'')),
        ext e (Mount (DIR_INSTALLATION @ ''/boot/efi''))
          (partition_mount (DIR_INSTALLATION @ ''/boot/efi'')),
        only_if (\<not> named) (ext e Get_version_data id),
        only_if (\<not> named) (ext e Get_default_image_name id),
        ext e (Mkdir target_dir) (mkdir target_dir),
        ext e (Mkdir (target_dir @ ''/rw'')) (mkdir (target_dir @ ''/rw'')),
        print ''Copying system files...'',
        ext e Device_list id,
        only_if (str_truthy iso_path) (ext e (Mount DIR_ISO_MOUNT) (partition_mount DIR_ISO_MOUNT)),
        copy_boot_files e target_dir,
        only_if (squashfs_exists e)
          (ext e (Copy_file ''filesystem.squashfs'')
             (add_file (target_dir @ ''/'' @ image_name @ ''.squashfs''))),
        ext e Grub_install (grub_install disk_selected),
        ext e Set_console_type (grub_set_console_type console_type DIR_INSTALLATION),
        ext e Version_add (grub_version_add image_name DIR_INSTALLATION),
        only_if set_default (ext e Set_default (grub_set_default image_name DIR_INSTALLATION)),
        ext e (Write_file (target_dir @ ''/rw/opt/vyatta/etc/config/.vyatta_config''))
          (write_file (target_dir @ ''/rw/opt/vyatta/etc/config/.vyatta_config'')
             (config_seed user_password)),
        only_if (str_truthy iso_path) (ext e (Umount DIR_ISO_MOUNT) (partition_umount DIR_ISO_MOUNT)),
        ext e (Umount (DIR_INSTALLATION @ ''/boot/efi''))
          (partition_umount (DIR_INSTALLATION @ ''/boot/efi'')),
        ext e (Umount DIR_INSTALLATION) (partition_umount DIR_INSTALLATION),
        ext e Sync id,
        print MSG_INFO_INSTALL_SUCCESS])"

definition install_on_disk ::
  "env \<Rightarrow> string \<Rightarrow> bool \<Rightarrow> string option \<Rightarrow> pyfloat option \<Rightarrow> string option \<Rightarrow> bool \<Rightarrow> string \<Rightarrow> cmd"
  where
  "install_on_disk e disk_selected no_prompt vyos_password root_size_gb image_name set_default
       console_type =
     (let vyos_password = (if no_prompt then str_or vyos_password ''vyos'' else ''vyos'');
          user_password = hash e vyos_password;
          console_type = (if console_type \<notin> set [''kvm'', ''serial''] then ''kvm'' else console_type);
          available_space = disk_size e disk_selected - 2147483648
      in run [
        only_if (\<not> no_prompt) (print MSG_INFO_INSTALL_DISK_CONFIRM),
        ext e Hash id,
        print MSG_INFO_INSTALL_PARTITONING,
        ext e (Disk_op (Disk_cleanup disk_selected)) (do_disk (Disk_cleanup disk_selected)),
        ext e Disk_size id,
        (case ask_root_size (gb_text e) available_space no_prompt root_size_gb of
           (Inl err, out) \<Rightarrow> run (map print out @ [raise err])
         | (Inr root_size, out) \<Rightarrow>
             run (map print out
                  @ [install_files e disk_selected user_password root_size image_name set_default
                       console_type]))])"

definition install_image ::
  "env \<Rightarrow> bool \<Rightarrow> string option \<Rightarrow> string option \<Rightarrow> pyfloat option \<Rightarrow> string option \<Rightarrow> bool \<Rightarrow> string \<Rightarrow> cmd"
  where
  "install_image e no_prompt target_disk vyos_password root_size_gb image_name set_default
       console_type =
     run [
       ext e Is_live_boot id,
       only_if (\<not> is_live_boot e) (raise (SystemExit (Exit_msg MSG_ERR_NOT_LIVE))),
       print (if \<not> no_prompt then MSG_INFO_INSTALL_WELCOME else ''Installing VyOS image...''),
       ext e Get_version_data id,
       only_if (case mem_total e of Some m \<Rightarrow> m \<noteq> 0 \<and> m < 4294967296 | None \<Rightarrow> False)
         (print MSG_LOWMEM_WARNING),
       ext e Disks_size id,
       only_if (disks_size e = []) (raise (SystemExit (Exit_msg MSG_ERR_NO_DISK))),
       (case ask_single_disk (disks_size e) no_prompt target_disk of
          (Inl err, out) \<Rightarrow> run (map print out @ [raise err])
        | (Inr disk_selected, out) \<Rightarrow>
            run (map print out
                 @ [install_on_disk e disk_selected no_prompt vyos_password root_size_gb image_name
                      set_default console_type]))]"

subsection \<open>add_image\<close>

text \<open>
  The body of the \<^verbatim>\<open>try\<close> statement of \<open>add_image\<close> (script lines 537 to 592). Both
  branches of \<^verbatim>\<open>if no_prompt\<close> at line 548 compute the same name; the branch at line 584
  sets \<open>set_default\<close> to \<open>no_prompt\<close>. Neither the version data of the running image nor
  the \<open>architecture\<close> and \<open>flavor\<close> entries of the new image's version data are read.
\<close>

definition new_image_name :: "env \<Rightarrow> string" where
  "new_image_name e =
     resolve_name
       (default_name e (case iso_version_data e of
                          Some version_data \<Rightarrow> version_data
                        | None \<Rightarrow> [''version'' \<mapsto> ''unknown'']))
       (get_images e)"

definition root_dir :: "env \<Rightarrow> string" where
  \<comment> \<open>\<^verbatim>\<open>root_dir = disk.find_persistence(); if not root_dir: root_dir = '/'\<close>\<close>
  "root_dir e = str_or (disk_find_persistence e) ''/''"

definition add_image_body :: "env \<Rightarrow> string \<Rightarrow> bool \<Rightarrow> cmd" where
  "add_image_body e iso_path no_prompt =
     (let target_dir = root_dir e @ ''/boot/'' @ new_image_name e;
          set_default = (if no_prompt then True else False)
      in run [
        ext e (Mkdir DIR_ISO_MOUNT) (mkdir DIR_ISO_MOUNT),
        ext e (Mount DIR_ISO_MOUNT) (partition_mount DIR_ISO_MOUNT),
        ext e Read_version id,
        ext e Get_default_image_name id,
        ext e Get_images id,
        print (''Installing image: '' @ new_image_name e),
        ext e Disk_find_persistence id,
        ext e (Mkdir target_dir) (mkdir target_dir),
        ext e (Mkdir (target_dir @ ''/rw'')) (mkdir (target_dir @ ''/rw'')),
        print ''Copying system files...'',
        copy_boot_files e target_dir,
        only_if (squashfs_exists e)
          (ext e (Copy_file ''filesystem.squashfs'')
             (add_file (target_dir @ ''/'' @ new_image_name e @ ''.squashfs''))),
        ext e Version_add (grub_version_add (new_image_name e) (root_dir e)),
        only_if set_default (ext e Set_default (grub_set_default (new_image_name e) (root_dir e))),
        print (''Image '' @ new_image_name e @ '' installed successfully'')])"

definition add_image ::
  "env \<Rightarrow> string \<Rightarrow> string option \<Rightarrow> string \<Rightarrow> string \<Rightarrow> bool \<Rightarrow> bool \<Rightarrow> cmd" where
  "add_image e image_path vrf username password no_prompt force =
     (let is_url = (url_scheme e image_path \<noteq> []);
          iso_path = (if is_url then FILE_DOWNLOAD else image_path)
      in run [
        ext e Is_live_boot id,
        only_if (is_live_boot e) (raise (SystemExit (Exit_msg MSG_ERR_LIVE))),
        only_if (\<not> no_prompt) (ext e Unsaved_commits id),
        only_if (\<not> no_prompt \<and> unsaved_commits e)
          (raise (SystemExit (Exit_msg MSG_ERR_UNSAVED_COMMITS))),
        only_if is_url
          (try_except
             (run [print (''Downloading image from '' @ image_path), ext e Download download])
             (\<lambda>err. raise (SystemExit (Exit_msg (''Failed to download image: '' @ err))))),
        (\<lambda>w. only_if (iso_path \<notin> set (paths w))
               (raise (SystemExit (Exit_msg (''Image file not found: '' @ iso_path)))) w),
        try_finally
          (try_except (add_image_body e iso_path no_prompt)
             (\<lambda>err. raise (SystemExit (Exit_msg (''Failed to add image: '' @ err)))))
          (cleanup e [DIR_ISO_MOUNT] [])])"

subsection \<open>parse_arguments and the main block\<close>

text \<open>
  \<open>args\<close> is the \<open>Namespace\<close> that \<open>argparse\<close> builds from the command line, with the
  defaults of the script for options that are absent. \<open>argparse\<close> itself leaves with
  status 2 when \<open>--action\<close> is missing or when \<open>--action\<close> or \<open>--console-type\<close> is not one
  of the declared \<open>choices\<close>; then the script's own checks follow.
\<close>

record args =
  arg_action :: "string option"
  arg_vrf :: "string option"
  arg_no_prompt :: bool
  arg_username :: string
  arg_password :: string
  arg_image_path :: "string option"
  arg_force :: bool
  arg_target_disk :: "string option"
  arg_vyos_password :: string
  arg_root_size_gb :: "pyfloat option"
  arg_image_name :: "string option"
  arg_no_set_default :: bool
  arg_console_type :: string

definition parse_arguments :: "args \<Rightarrow> exn + args" where
  "parse_arguments a =
     (if arg_action a \<notin> {Some ''install'', Some ''add''} then Inl (SystemExit (Exit_code 2))
      else if arg_console_type a \<notin> {''kvm'', ''serial''} then Inl (SystemExit (Exit_code 2))
      else if arg_action a = Some ''add'' \<and> \<not> str_truthy (arg_image_path a)
      then Inl (SystemExit (Exit_msg ''A path to image is required for add action''))
      else if arg_action a = Some ''install'' then Inr (a\<lparr>arg_no_prompt := True\<rparr>)
      else Inr a)"

definition dispatch :: "env \<Rightarrow> args \<Rightarrow> cmd" where
  \<comment> \<open>the \<^verbatim>\<open>if args.action == 'install': ... elif args.action == 'add': ...\<close> of the main block\<close>
  "dispatch e a =
     (if arg_action a = Some ''install'' then
        install_image e (arg_no_prompt a) (arg_target_disk a) (Some (arg_vyos_password a))
          (arg_root_size_gb a) (arg_image_name a) (\<not> arg_no_set_default a) (arg_console_type a)
      else if arg_action a = Some ''add'' then
        add_image e (str_or (arg_image_path a) []) (arg_vrf a) (arg_username a) (arg_password a)
          (arg_no_prompt a) (arg_force a)
      else skip)"

definition main :: "env \<Rightarrow> args \<Rightarrow> cmd" where
  "main e argv w =
     (case (case parse_arguments argv of
              Inl x \<Rightarrow> raise x w
            | Inr a \<Rightarrow> run [dispatch e a, raise (SystemExit Exit_none)] w) of
        (Some KeyboardInterrupt, w') \<Rightarrow>
          run [print ''Stopped by Ctrl+C'', cleanup e [] [], raise (SystemExit Exit_none)] w'
      | (Some (Exception err), w') \<Rightarrow> (Some (SystemExit (Exit_msg err)), w')
      | r \<Rightarrow> r)"

definition exit_status :: "exn option \<Rightarrow> int" where
  \<comment> \<open>the status the interpreter leaves with\<close>
  "exit_status r =
     (case r of
        None \<Rightarrow> 0
      | Some (SystemExit Exit_none) \<Rightarrow> 0
      | Some (SystemExit (Exit_code n)) \<Rightarrow> n
      | Some (SystemExit (Exit_msg m)) \<Rightarrow> 1
      | Some (Exception err) \<Rightarrow> 1
      | Some KeyboardInterrupt \<Rightarrow> 130)"

section \<open>Properties of commands\<close>

text \<open>
  Three ways to speak about a command whatever the collaborators do: it keeps a property
  of the world (also when it raises), it establishes a property whenever it returns
  normally, it never raises a given exception.
\<close>

definition preserves :: "(world \<Rightarrow> bool) \<Rightarrow> cmd \<Rightarrow> bool" where
  "preserves P c = (\<forall>w. P w \<longrightarrow> P (snd (c w)))"

definition establishes :: "cmd \<Rightarrow> (world \<Rightarrow> bool) \<Rightarrow> bool" where
  "establishes c Q = (\<forall>w. fst (c w) = None \<longrightarrow> Q (snd (c w)))"

definition never_raises :: "exn \<Rightarrow> cmd \<Rightarrow> bool" where
  "never_raises x c = (\<forall>w. fst (c w) \<noteq> Some x)"

section \<open>Example systems\<close>

text \<open>
  An installed system of architecture \<open>amd64\<close> and flavor \<open>generic\<close> that runs image \<open>1.3\<close>,
  with one disk of 22 GiB, and an ISO of version \<open>1.4\<close> of the same architecture and
  flavor; no collaborator fails. \<open>live_system\<close> is the same machine booted from the live
  medium. \<open>world0\<close> is its state before the script runs: nothing mounted, the ISO at
  \<^verbatim>\<open>/tmp/new.iso\<close>, image \<open>1.3\<close> registered and the default under \<^verbatim>\<open>/\<close>.
\<close>

definition no_fault :: "prim \<Rightarrow> fault option" where
  "no_fault p = None"

definition installed_system :: env where
  "installed_system = \<lparr>
     fault = no_fault,
     is_live_boot = False,
     unsaved_commits = False,
     mem_total = Some 8589934592,
     disks_size = [''/dev/sda''],
     disk_size = (\<lambda>d. 23622320128),
     hash = (\<lambda>p. ''$6$'' @ p),
     device_list = [],
     parttable_partitions_list = (\<lambda>d. []),
     current_version_data =
       [''version'' \<mapsto> ''1.3'', ''architecture'' \<mapsto> ''amd64'', ''flavor'' \<mapsto> ''generic''],
     iso_version_data =
       Some [''version'' \<mapsto> ''1.4'', ''architecture'' \<mapsto> ''amd64'', ''flavor'' \<mapsto> ''generic''],
     live_files = [''vmlinuz'', ''initrd.img'', ''filesystem.squashfs''],
     squashfs_exists = True,
     get_default_image_name = (\<lambda>v. v),
     get_images = [''1.3''],
     disk_find_persistence = None,
     url_scheme = (\<lambda>p. if take 7 p = ''http://'' then ''http'' else []),
     gb_text = (\<lambda>n. str_int (n div 1024 ^ 3))\<rparr>"

definition live_system :: env where
  "live_system = installed_system\<lparr>is_live_boot := True\<rparr>"

definition arm64_iso :: env where
  \<comment> \<open>the installed \<open>amd64\<close> system, offered an image built for \<open>arm64\<close>\<close>
  "arm64_iso = installed_system\<lparr>iso_version_data :=
     Some [''version'' \<mapsto> ''1.4'', ''architecture'' \<mapsto> ''arm64'', ''flavor'' \<mapsto> ''generic'']\<rparr>"

definition interrupted_copy :: env where
  \<comment> \<open>the live system, where the user's interrupt arrives while the kernel is copied\<close>
  "interrupted_copy = live_system\<lparr>fault :=
     (\<lambda>p. if p = Copy_file ''vmlinuz'' then Some Interrupted else None)\<rparr>"

definition unsaved_system :: env where
  \<comment> \<open>the installed system with changes to the configuration that were not saved\<close>
  "unsaved_system = installed_system\<lparr>unsaved_commits := True\<rparr>"

definition world0 :: world where
  "world0 = \<lparr>
     mounts = [],
     paths = [''/tmp/new.iso''],
     files = Map.empty,
     disk_log = [],
     grub_installed = [],
     grub_versions = (\<lambda>r. if r = ''/'' then [''1.3''] else []),
     grub_default = [''/'' \<mapsto> ''1.3''],
     grub_console = Map.empty,
     stdout = []\<rparr>"

definition install_args :: args where
  \<comment> \<open>\<^verbatim>\<open>--action install\<close>, every other option at its default\<close>
  "install_args = \<lparr>
     arg_action = Some ''install'',
     arg_vrf = None,
     arg_no_prompt = False,
     arg_username = [],
     arg_password = [],
     arg_image_path = None,
     arg_force = False,
     arg_target_disk = None,
     arg_vyos_password = ''vyos'',
     arg_root_size_gb = None,
     arg_image_name = None,
     arg_no_set_default = False,
     arg_console_type = ''kvm''\<rparr>"

definition add_args :: args where
  \<comment> \<open>\<^verbatim>\<open>--action add --image-path /tmp/new.iso --no-prompt\<close>\<close>
  "add_args = install_args\<lparr>arg_action := Some ''add'', arg_image_path := Some ''/tmp/new.iso'',
     arg_no_prompt := True\<rparr>"

definition add_no_default_args :: args where
  \<comment> \<open>\<^verbatim>\<open>--action add --image-path /tmp/new.iso --no-prompt --no-set-default\<close>\<close>
  "add_no_default_args = add_args\<lparr>arg_no_set_default := True\<rparr>"

(*MODEL-END*)

section \<open>Rules for commands\<close>

lemma run_append:
  "run (xs @ ys) w = (case run xs w of (None, w') \<Rightarrow> run ys w' | (Some x, w') \<Rightarrow> (Some x, w'))"
  by (induction xs arbitrary: w) (auto split: prod.splits option.splits)

lemma preserves_run: "\<forall>c \<in> set cs. preserves P c \<Longrightarrow> preserves P (run cs)"
proof (induction cs)
  case Nil
  show ?case by (simp add: preserves_def)
next
  case (Cons c cs)
  then have c: "preserves P c" and cs: "preserves P (run cs)" by simp_all
  show ?case unfolding preserves_def
  proof (intro allI impI)
    fix w assume "P w"
    with c have "P (snd (c w))" by (simp add: preserves_def)
    with cs have "P (snd (run cs (snd (c w))))" by (simp add: preserves_def)
    with \<open>P (snd (c w))\<close> show "P (snd (run (c # cs) w))"
      by (cases "c w") (auto split: option.splits)
  qed
qed

lemma preserves_ext: "(\<And>w. P w \<Longrightarrow> P (effect w)) \<Longrightarrow> preserves P (ext e p effect)"
  by (simp add: preserves_def ext_def split: option.splits)

lemma preserves_print: "(\<And>w. P w \<Longrightarrow> P (say s w)) \<Longrightarrow> preserves P (print s)"
  by (simp add: preserves_def print_def)

lemma preserves_raise: "preserves P (raise x)"
  by (simp add: preserves_def raise_def)

lemma preserves_skip: "preserves P skip"
  by (simp add: preserves_def skip_def)

lemma preserves_only_if: "(b \<Longrightarrow> preserves P c) \<Longrightarrow> preserves P (only_if b c)"
  by (simp add: only_if_def preserves_skip)

lemma preserves_check: "preserves P (\<lambda>w. only_if (b w) (raise x) w)"
  by (simp add: preserves_def only_if_def raise_def skip_def)

lemma preserves_try_except:
  "preserves P c \<Longrightarrow> (\<And>err. preserves P (handler err)) \<Longrightarrow> preserves P (try_except c handler)"
  unfolding preserves_def try_except_def
proof (intro allI impI)
  fix w
  assume c: "\<forall>w. P w \<longrightarrow> P (snd (c w))" and h: "\<And>err. \<forall>w. P w \<longrightarrow> P (snd (handler err w))"
    and "P w"
  then have "P (snd (c w))" by simp
  with h show "P (snd (case c w of
      (Some (Exception err), w') \<Rightarrow> handler err w' | r \<Rightarrow> r))"
    by (cases "c w") (auto split: option.splits exn.splits)
qed

lemma preserves_try_finally:
  "preserves P c \<Longrightarrow> preserves P f \<Longrightarrow> preserves P (try_finally c f)"
  unfolding preserves_def try_finally_def
proof (intro allI impI)
  fix w
  assume c: "\<forall>w. P w \<longrightarrow> P (snd (c w))" and f: "\<forall>w. P w \<longrightarrow> P (snd (f w))" and "P w"
  then have "P (snd (f (snd (c w))))" by simp
  then show "P (snd (case c w of (r, w') \<Rightarrow>
      (case f w' of (Some x, w'') \<Rightarrow> (Some x, w'') | (None, w'') \<Rightarrow> (r, w''))))"
    by (cases "c w"; cases "f (snd (c w))") (auto split: option.splits)
qed

lemma establishes_ext: "(\<And>w. Q (effect w)) \<Longrightarrow> establishes (ext e p effect) Q"
  by (simp add: establishes_def ext_def split: option.splits)

lemma establishes_run_from:
  "establishes c Q \<Longrightarrow> \<forall>c' \<in> set cs. preserves Q c' \<Longrightarrow> establishes (run (pre @ c # cs)) Q"
  unfolding establishes_def
proof (intro allI impI)
  fix w
  assume c: "\<forall>w. fst (c w) = None \<longrightarrow> Q (snd (c w))"
    and cs: "\<forall>c' \<in> set cs. preserves Q c'"
    and ok: "fst (run (pre @ c # cs) w) = None"
  from cs have keep: "preserves Q (run cs)" by (rule preserves_run)
  obtain r1 w1 where pre: "run pre w = (r1, w1)" by (cases "run pre w")
  obtain r2 w2 where step: "c w1 = (r2, w2)" by (cases "c w1")
  from ok pre have r1: "r1 = None" by (cases r1) (simp_all add: run_append)
  with ok pre step have r2: "r2 = None" by (cases r2) (simp_all add: run_append)
  with c step have "Q w2" by (metis fst_conv snd_conv)
  with keep have "Q (snd (run cs w2))" by (simp add: preserves_def)
  with pre step r1 r2 show "Q (snd (run (pre @ c # cs) w))" by (simp add: run_append)
qed

lemma establishes_try_except_raise:
  "establishes c Q \<Longrightarrow> establishes (try_except c (\<lambda>err. raise (x err))) Q"
  unfolding establishes_def try_except_def raise_def
proof (intro allI impI)
  fix w
  assume c: "\<forall>w. fst (c w) = None \<longrightarrow> Q (snd (c w))"
    and ok: "fst (case c w of (Some (Exception err), w') \<Rightarrow> (Some (x err), w') | r \<Rightarrow> r) = None"
  from ok have "fst (c w) = None"
    by (cases "c w") (auto split: option.splits exn.splits)
  moreover from this c have "Q (snd (c w))" by simp
  ultimately show "Q (snd (case c w of (Some (Exception err), w') \<Rightarrow> (Some (x err), w') | r \<Rightarrow> r))"
    by (cases "c w") auto
qed

lemma establishes_try_finally:
  "establishes c Q \<Longrightarrow> preserves Q f \<Longrightarrow> establishes (try_finally c f) Q"
  unfolding establishes_def try_finally_def preserves_def
proof (intro allI impI)
  fix w
  assume c: "\<forall>w. fst (c w) = None \<longrightarrow> Q (snd (c w))" and f: "\<forall>w. Q w \<longrightarrow> Q (snd (f w))"
    and ok: "fst (case c w of (r, w') \<Rightarrow>
      (case f w' of (Some x, w'') \<Rightarrow> (Some x, w'') | (None, w'') \<Rightarrow> (r, w''))) = None"
  obtain r w' where cw: "c w = (r, w')" by (cases "c w")
  obtain r' w'' where fw: "f w' = (r', w'')" by (cases "f w'")
  from ok cw fw have "r' = None" and "r = None" by (cases r'; simp)+
  with c cw have "Q w'" by (metis fst_conv snd_conv)
  with f fw have "Q w''" by (metis snd_conv)
  with cw fw \<open>r' = None\<close> show "Q (snd (case c w of (r, w') \<Rightarrow>
      (case f w' of (Some x, w'') \<Rightarrow> (Some x, w'') | (None, w'') \<Rightarrow> (r, w''))))" by simp
qed

lemma never_raises_run: "\<forall>c \<in> set cs. never_raises x c \<Longrightarrow> never_raises x (run cs)"
proof (induction cs)
  case Nil
  show ?case by (simp add: never_raises_def)
next
  case (Cons c cs)
  then have c: "never_raises x c" and cs: "never_raises x (run cs)" by simp_all
  show ?case unfolding never_raises_def
  proof
    fix w
    from c have "fst (c w) \<noteq> Some x" by (simp add: never_raises_def)
    moreover from cs have "fst (run cs (snd (c w))) \<noteq> Some x" by (simp add: never_raises_def)
    ultimately show "fst (run (c # cs) w) \<noteq> Some x"
      by (cases "c w") (auto split: option.splits)
  qed
qed

lemma never_raises_ext: "never_raises (SystemExit a) (ext e p effect)"
  by (simp add: never_raises_def ext_def exn_of_def split: option.splits fault.splits)

lemma never_raises_print: "never_raises x (print s)"
  by (simp add: never_raises_def print_def)

lemma never_raises_skip: "never_raises x skip"
  by (simp add: never_raises_def skip_def)

lemma never_raises_raise: "x \<noteq> y \<Longrightarrow> never_raises x (raise y)"
  by (simp add: never_raises_def raise_def)

lemma never_raises_only_if: "(b \<Longrightarrow> never_raises x c) \<Longrightarrow> never_raises x (only_if b c)"
  by (simp add: only_if_def never_raises_skip)

lemma never_raises_check: "x \<noteq> y \<Longrightarrow> never_raises x (\<lambda>w. only_if (b w) (raise y) w)"
  by (simp add: never_raises_def only_if_def raise_def skip_def)

lemma never_raises_try_except:
  "never_raises x c \<Longrightarrow> (\<And>err. never_raises x (handler err)) \<Longrightarrow>
   never_raises x (try_except c handler)"
  unfolding never_raises_def try_except_def
proof
  fix w
  assume c: "\<forall>w. fst (c w) \<noteq> Some x" and h: "\<And>err. \<forall>w. fst (handler err w) \<noteq> Some x"
  from c have "fst (c w) \<noteq> Some x" by simp
  with h show "fst (case c w of (Some (Exception err), w') \<Rightarrow> handler err w' | r \<Rightarrow> r) \<noteq> Some x"
    by (cases "c w") (auto split: option.splits exn.splits)
qed

lemma never_raises_try_finally:
  "never_raises x c \<Longrightarrow> never_raises x f \<Longrightarrow> never_raises x (try_finally c f)"
  unfolding never_raises_def try_finally_def
proof
  fix w
  assume c: "\<forall>w. fst (c w) \<noteq> Some x" and f: "\<forall>w. fst (f w) \<noteq> Some x"
  from c have "fst (c w) \<noteq> Some x" by simp
  moreover from f have "fst (f (snd (c w))) \<noteq> Some x" by simp
  ultimately show "fst (case c w of (r, w') \<Rightarrow>
      (case f w' of (Some x, w'') \<Rightarrow> (Some x, w'') | (None, w'') \<Rightarrow> (r, w''))) \<noteq> Some x"
    by (cases "c w"; cases "f (snd (c w))") (auto split: option.splits)
qed

section \<open>What each effect leaves alone\<close>

lemma say_sel:
  "mounts (say s w) = mounts w" "paths (say s w) = paths w"
  "grub_versions (say s w) = grub_versions w" "grub_default (say s w) = grub_default w"
  "grub_console (say s w) = grub_console w" "stdout (say s w) = stdout w @ [s]"
  by (simp_all add: say_def)

lemma mkdir_sel:
  "mounts (mkdir p w) = mounts w" "set (paths (mkdir p w)) = insert p (set (paths w))"
  "grub_versions (mkdir p w) = grub_versions w" "grub_default (mkdir p w) = grub_default w"
  "grub_console (mkdir p w) = grub_console w" "stdout (mkdir p w) = stdout w"
  by (auto simp: mkdir_def)

lemma add_file_sel:
  "mounts (add_file p w) = mounts w" "set (paths (add_file p w)) = insert p (set (paths w))"
  "grub_versions (add_file p w) = grub_versions w" "grub_default (add_file p w) = grub_default w"
  "grub_console (add_file p w) = grub_console w" "stdout (add_file p w) = stdout w"
  by (auto simp: add_file_def)

lemma write_file_sel:
  "mounts (write_file p c w) = mounts w" "set (paths (write_file p c w)) = insert p (set (paths w))"
  "grub_versions (write_file p c w) = grub_versions w"
  "grub_default (write_file p c w) = grub_default w"
  "grub_console (write_file p c w) = grub_console w" "stdout (write_file p c w) = stdout w"
  by (auto simp: write_file_def add_file_def)

lemma download_sel:
  "mounts (download w) = mounts w" "set (paths (download w)) = insert FILE_DOWNLOAD (set (paths w))"
  "grub_versions (download w) = grub_versions w" "grub_default (download w) = grub_default w"
  "grub_console (download w) = grub_console w" "stdout (download w) = stdout w"
  by (simp_all add: download_def add_file_sel)

lemma partition_mount_sel:
  "mounts (partition_mount m w) = m # mounts w" "paths (partition_mount m w) = paths w"
  "grub_versions (partition_mount m w) = grub_versions w"
  "grub_default (partition_mount m w) = grub_default w"
  "grub_console (partition_mount m w) = grub_console w" "stdout (partition_mount m w) = stdout w"
  by (simp_all add: partition_mount_def)

lemma partition_umount_sel:
  "mounts (partition_umount m w) = remove1 m (mounts w)" "paths (partition_umount m w) = paths w"
  "grub_versions (partition_umount m w) = grub_versions w"
  "grub_default (partition_umount m w) = grub_default w"
  "grub_console (partition_umount m w) = grub_console w" "stdout (partition_umount m w) = stdout w"
  by (simp_all add: partition_umount_def)

lemma remove_path_sel:
  "mounts (remove_path p w) = mounts w"
  "set (paths (remove_path p w)) = {q \<in> set (paths w). \<not> under p q}"
  "grub_versions (remove_path p w) = grub_versions w"
  "grub_default (remove_path p w) = grub_default w"
  "grub_console (remove_path p w) = grub_console w" "stdout (remove_path p w) = stdout w"
  by (simp_all add: remove_path_def)

lemma do_disk_sel:
  "mounts (do_disk op w) = mounts w" "paths (do_disk op w) = paths w"
  "grub_versions (do_disk op w) = grub_versions w" "grub_default (do_disk op w) = grub_default w"
  "grub_console (do_disk op w) = grub_console w" "stdout (do_disk op w) = stdout w"
  by (simp_all add: do_disk_def)

lemma grub_install_sel:
  "mounts (grub_install d w) = mounts w" "paths (grub_install d w) = paths w"
  "grub_versions (grub_install d w) = grub_versions w"
  "grub_default (grub_install d w) = grub_default w"
  "grub_console (grub_install d w) = grub_console w" "stdout (grub_install d w) = stdout w"
  by (simp_all add: grub_install_def)

lemma grub_set_console_type_sel:
  "mounts (grub_set_console_type c r w) = mounts w" "paths (grub_set_console_type c r w) = paths w"
  "grub_versions (grub_set_console_type c r w) = grub_versions w"
  "grub_default (grub_set_console_type c r w) = grub_default w"
  "grub_console (grub_set_console_type c r w) = (grub_console w)(r \<mapsto> c)"
  "stdout (grub_set_console_type c r w) = stdout w"
  by (simp_all add: grub_set_console_type_def)

lemma grub_version_add_sel:
  "mounts (grub_version_add n r w) = mounts w" "paths (grub_version_add n r w) = paths w"
  "grub_versions (grub_version_add n r w) = (grub_versions w)(r := grub_versions w r @ [n])"
  "grub_default (grub_version_add n r w) = grub_default w"
  "grub_console (grub_version_add n r w) = grub_console w"
  "stdout (grub_version_add n r w) = stdout w"
  by (simp_all add: grub_version_add_def)

lemma grub_set_default_sel:
  "mounts (grub_set_default n r w) = mounts w" "paths (grub_set_default n r w) = paths w"
  "grub_versions (grub_set_default n r w) = grub_versions w"
  "grub_default (grub_set_default n r w) = (grub_default w)(r \<mapsto> n)"
  "grub_console (grub_set_default n r w) = grub_console w"
  "stdout (grub_set_default n r w) = stdout w"
  by (simp_all add: grub_set_default_def)

lemmas sel_simps = say_sel mkdir_sel add_file_sel write_file_sel download_sel partition_mount_sel
  partition_umount_sel remove_path_sel do_disk_sel grub_install_sel grub_set_console_type_sel
  grub_version_add_sel grub_set_default_sel

lemmas preserves_intros = preserves_ext preserves_print preserves_raise preserves_skip
  preserves_only_if preserves_check preserves_try_except preserves_try_finally

lemma preserves_cleanup:
  assumes "\<And>s w. P w \<Longrightarrow> P (say s w)"
    and "\<And>m w. m \<in> set ms \<Longrightarrow> P w \<Longrightarrow> P (partition_umount m w)"
    and "\<And>p w. p \<in> set (if items = [] then [DIR_INSTALLATION] else items) \<Longrightarrow> P w
           \<Longrightarrow> P (remove_path p w)"
  shows "preserves P (cleanup e ms items)"
proof -
  have um: "preserves P (umount_one e m)" if "m \<in> set ms" for m
    unfolding umount_one_def using assms(1,2) that
    by (intro preserves_try_except preserves_ext preserves_print) simp_all
  have rm: "preserves P (remove_one e item)"
    if item: "item \<in> set (if items = [] then [DIR_INSTALLATION] else items)" for item
    unfolding remove_one_def
  proof (intro preserves_try_except preserves_print assms(1))
    show "preserves P (\<lambda>w. if item \<in> set (paths w)
        then ext e (Remove item) (remove_path item) w else skip w)"
      using assms(3) [OF item] by (simp add: preserves_def ext_def skip_def split: option.splits)
  qed
  show ?thesis unfolding cleanup_def
    by (rule preserves_run) (auto intro: um rm preserves_print assms(1))
qed

lemma preserves_copy_boot_files:
  assumes "\<And>p w. P w \<Longrightarrow> P (add_file p w)"
  shows "preserves P (copy_boot_files e target_dir)"
  unfolding copy_boot_files_def
  by (rule preserves_run) (auto intro!: preserves_ext assms)

lemma establishes_run_nth:
  assumes "i < length cs" and "establishes (cs ! i) Q"
    and "\<forall>c' \<in> set (drop (Suc i) cs). preserves Q c'"
  shows "establishes (run cs) Q"
proof -
  from assms(1) have "cs = take i cs @ cs ! i # drop (Suc i) cs" by (rule id_take_nth_drop)
  moreover from assms(2,3) have "establishes (run (take i cs @ cs ! i # drop (Suc i) cs)) Q"
    by (rule establishes_run_from)
  ultimately show ?thesis by simp
qed

section \<open>What add_image establishes\<close>

lemma add_image_body_sets_default:
  "establishes (add_image_body e iso_path True)
     (\<lambda>w. grub_default w (root_dir e) = Some (new_image_name e))"
  unfolding add_image_body_def Let_def
  by (rule establishes_run_nth [where i = 13])
     (auto simp: only_if_def sel_simps intro!: establishes_ext preserves_print)

lemma add_image_body_registers:
  "establishes (add_image_body e iso_path no_prompt)
     (\<lambda>w. new_image_name e \<in> set (grub_versions w (root_dir e)))"
  unfolding add_image_body_def Let_def
  by (rule establishes_run_nth [where i = 12])
     (auto simp: sel_simps intro!: establishes_ext preserves_intros)

lemma add_image_establishes:
  assumes "establishes (add_image_body e (if url_scheme e image_path \<noteq> [] then FILE_DOWNLOAD
             else image_path) no_prompt) Q"
    and "preserves Q (cleanup e [DIR_ISO_MOUNT] [])"
  shows "establishes (add_image e image_path vrf username password no_prompt force) Q"
  unfolding add_image_def Let_def
  by (rule establishes_run_nth [where i = 6])
     (simp_all add: assms establishes_try_finally establishes_try_except_raise)

lemma add_image_keeps_default:
  "preserves (\<lambda>w. grub_default w = d) (add_image e image_path vrf username password False force)"
  unfolding add_image_def add_image_body_def Let_def
  by (rule preserves_run)
     (auto intro!: preserves_intros preserves_run preserves_cleanup preserves_copy_boot_files
           simp: sel_simps)

section \<open>Runs in which no collaborator fails\<close>

lemma run_map_ext_no_fault:
  "\<forall>p. fault e p = None \<Longrightarrow>
   run (map (\<lambda>x. ext e (prim_of x) (effect_of x)) xs) w = (None, fold effect_of xs w)"
  by (induction xs arbitrary: w) (simp_all add: ext_def)

lemma copy_boot_files_no_fault:
  "\<forall>p. fault e p = None \<Longrightarrow>
   copy_boot_files e target_dir w
     = (None, fold (\<lambda>name. add_file (target_dir @ ''/'' @ name))
                (filter is_boot_file (live_files e)) w)"
  by (simp add: copy_boot_files_def ext_def run_map_ext_no_fault)

lemmas cmd_defs = ext_def print_def raise_def skip_def only_if_def try_except_def try_finally_def

lemma add_image_succeeds:
  assumes "\<forall>p. fault e p = None" and "\<not> is_live_boot e" and "no_prompt \<or> \<not> unsaved_commits e"
    and "url_scheme e image_path \<noteq> [] \<or> image_path \<in> set (paths w)"
  shows "fst (add_image e image_path vrf username password no_prompt force w) = None"
  using assms
  by (auto simp: add_image_def add_image_body_def cleanup_def umount_one_def remove_one_def
        Let_def cmd_defs copy_boot_files_no_fault sel_simps)

lemma installed_system_facts:
  "\<forall>p. fault installed_system p = None" "\<not> is_live_boot installed_system"
  "\<not> unsaved_commits installed_system" "url_scheme installed_system ''/tmp/new.iso'' = []"
  "root_dir installed_system = ''/''" "new_image_name installed_system = ''1.4''"
  by (simp_all add: installed_system_def no_fault_def root_dir_def str_or_def new_image_name_def
        default_name_def resolve_name_def)

lemma arm64_iso_facts:
  "\<forall>p. fault arm64_iso p = None" "\<not> is_live_boot arm64_iso"
  "\<not> unsaved_commits arm64_iso" "url_scheme arm64_iso ''/tmp/new.iso'' = []"
  "root_dir arm64_iso = ''/''" "new_image_name arm64_iso = ''1.4''"
  by (simp_all add: arm64_iso_def installed_system_def no_fault_def root_dir_def str_or_def
        new_image_name_def default_name_def resolve_name_def)

lemma world0_facts:
  "''/tmp/new.iso'' \<in> set (paths world0)" "FILE_DOWNLOAD \<notin> set (paths world0)"
  "mounts world0 = []" "grub_default world0 ''/'' = Some ''1.3''"
  "grub_versions world0 ''/'' = [''1.3'']" "stdout world0 = []"
  by (simp_all add: world0_def FILE_DOWNLOAD_def)

lemma add_image_sets_default:
  "establishes (add_image e image_path vrf username password True force)
     (\<lambda>w. grub_default w (root_dir e) = Some (new_image_name e))"
  by (intro add_image_establishes add_image_body_sets_default preserves_cleanup)
     (simp_all add: sel_simps)

lemma add_image_registers:
  "establishes (add_image e image_path vrf username password no_prompt force)
     (\<lambda>w. new_image_name e \<in> set (grub_versions w (root_dir e)))"
  by (intro add_image_establishes add_image_body_registers preserves_cleanup)
     (simp_all add: sel_simps)

lemma add_image_ignores_force:
  "add_image e image_path vrf username password no_prompt True
   = add_image e image_path vrf username password no_prompt False"
  by (simp add: add_image_def)

lemma ext_same_fault: "fault e' = fault e \<Longrightarrow> ext e' = ext e"
  by (intro ext) (simp add: ext_def)

lemma add_image_ignores_current_version:
  "add_image (e\<lparr>current_version_data := d\<rparr>) image_path vrf username password no_prompt force
   = add_image e image_path vrf username password no_prompt force"
proof -
  let ?e = "e\<lparr>current_version_data := d\<rparr>"
  have ext_eq: "ext ?e = ext e" by (rule ext_same_fault) simp
  have name: "new_image_name ?e = new_image_name e"
    by (simp add: new_image_name_def default_name_def)
  have root: "root_dir ?e = root_dir e" by (simp add: root_dir_def)
  have copy: "copy_boot_files ?e = copy_boot_files e"
    by (intro ext) (simp add: copy_boot_files_def ext_eq)
  have um: "umount_one ?e = umount_one e" by (intro ext) (simp add: umount_one_def ext_eq)
  have rm: "remove_one ?e = remove_one e" by (intro ext) (simp add: remove_one_def ext_eq cong: if_cong)
  have clean: "cleanup ?e = cleanup e" by (intro ext) (simp add: cleanup_def um rm)
  have body: "add_image_body ?e = add_image_body e"
    by (intro ext) (simp add: add_image_body_def name root copy ext_eq)
  show ?thesis by (simp add: add_image_def body clean ext_eq)
qed

section \<open>Exceptions that add_image can end with\<close>

lemma never_raises_run_prefix:
  assumes "\<forall>c \<in> set (drop i cs). never_raises x c" and "fst (run cs w) = Some x"
  shows "fst (run (take i cs) w) = Some x"
proof -
  from assms(1) have tail: "never_raises x (run (drop i cs))" by (rule never_raises_run)
  have "run cs w = run (take i cs @ drop i cs) w" by simp
  also have "\<dots> = (case run (take i cs) w of
      (None, w') \<Rightarrow> run (drop i cs) w' | (Some y, w') \<Rightarrow> (Some y, w'))"
    by (rule run_append)
  finally have eq: "run cs w = (case run (take i cs) w of
      (None, w') \<Rightarrow> run (drop i cs) w' | (Some y, w') \<Rightarrow> (Some y, w'))" .
  obtain r w' where pre: "run (take i cs) w = (r, w')" by (cases "run (take i cs) w")
  show ?thesis
  proof (cases r)
    case None
    with eq pre assms(2) have "fst (run (drop i cs) w') = Some x" by simp
    with tail show ?thesis by (simp add: never_raises_def)
  next
    case (Some y)
    with eq pre assms(2) show ?thesis by simp
  qed
qed

lemma never_raises_cleanup: "never_raises (SystemExit a) (cleanup e ms items)"
proof -
  have um: "never_raises (SystemExit a) (umount_one e m)" for m
    unfolding umount_one_def
    by (intro never_raises_try_except never_raises_ext never_raises_print)
  have rm: "never_raises (SystemExit a) (remove_one e item)" for item
    unfolding remove_one_def
  proof (intro never_raises_try_except never_raises_print)
    show "never_raises (SystemExit a) (\<lambda>w. if item \<in> set (paths w)
        then ext e (Remove item) (remove_path item) w else skip w)"
      by (simp add: never_raises_def ext_def skip_def exn_of_def split: option.splits fault.splits)
  qed
  show ?thesis unfolding cleanup_def
    by (rule never_raises_run) (auto intro: um rm never_raises_print)
qed

lemma never_raises_copy_boot_files: "never_raises (SystemExit a) (copy_boot_files e target_dir)"
  unfolding copy_boot_files_def
  by (rule never_raises_run) (auto intro!: never_raises_ext)

lemma never_raises_add_image_body: "never_raises (SystemExit a) (add_image_body e iso_path no_prompt)"
  unfolding add_image_body_def Let_def
  by (rule never_raises_run)
     (auto intro!: never_raises_ext never_raises_print never_raises_only_if
        never_raises_copy_boot_files)

lemma add_image_unsaved_exit_only_from_check:
  assumes "fst (add_image e image_path vrf username password no_prompt force w)
           = Some (SystemExit (Exit_msg MSG_ERR_UNSAVED_COMMITS))"
  shows "fst (run [ext e Is_live_boot id,
                   only_if (is_live_boot e) (raise (SystemExit (Exit_msg MSG_ERR_LIVE))),
                   only_if (\<not> no_prompt) (ext e Unsaved_commits id),
                   only_if (\<not> no_prompt \<and> unsaved_commits e)
                     (raise (SystemExit (Exit_msg MSG_ERR_UNSAVED_COMMITS)))] w)
         = Some (SystemExit (Exit_msg MSG_ERR_UNSAVED_COMMITS))"
proof -
  let ?X = "SystemExit (Exit_msg MSG_ERR_UNSAVED_COMMITS)"
  let ?iso = "if url_scheme e image_path \<noteq> [] then FILE_DOWNLOAD else image_path"
  let ?cs = "[ext e Is_live_boot id,
      only_if (is_live_boot e) (raise (SystemExit (Exit_msg MSG_ERR_LIVE))),
      only_if (\<not> no_prompt) (ext e Unsaved_commits id),
      only_if (\<not> no_prompt \<and> unsaved_commits e) (raise ?X),
      only_if (url_scheme e image_path \<noteq> [])
        (try_except
           (run [print (''Downloading image from '' @ image_path), ext e Download download])
           (\<lambda>err. raise (SystemExit (Exit_msg (''Failed to download image: '' @ err))))),
      (\<lambda>w. only_if (?iso \<notin> set (paths w))
             (raise (SystemExit (Exit_msg (''Image file not found: '' @ ?iso)))) w),
      try_finally
        (try_except (add_image_body e ?iso no_prompt)
           (\<lambda>err. raise (SystemExit (Exit_msg (''Failed to add image: '' @ err)))))
        (cleanup e [DIR_ISO_MOUNT] [])]"
  have whole: "add_image e image_path vrf username password no_prompt force = run ?cs"
    by (simp add: add_image_def Let_def)
  have download: "never_raises ?X (only_if (url_scheme e image_path \<noteq> [])
        (try_except
           (run [print (''Downloading image from '' @ image_path), ext e Download download])
           (\<lambda>err. raise (SystemExit (Exit_msg (''Failed to download image: '' @ err))))))"
    by (intro never_raises_only_if never_raises_try_except never_raises_run never_raises_raise)
       (auto simp: MSG_ERR_UNSAVED_COMMITS_def intro: never_raises_print never_raises_ext)
  have found: "never_raises ?X (\<lambda>w. only_if (?iso \<notin> set (paths w))
             (raise (SystemExit (Exit_msg (''Image file not found: '' @ ?iso)))) w)"
    by (rule never_raises_check) (simp add: MSG_ERR_UNSAVED_COMMITS_def)
  have body: "never_raises ?X (try_finally
        (try_except (add_image_body e ?iso no_prompt)
           (\<lambda>err. raise (SystemExit (Exit_msg (''Failed to add image: '' @ err)))))
        (cleanup e [DIR_ISO_MOUNT] []))"
    by (intro never_raises_try_finally never_raises_try_except never_raises_add_image_body
          never_raises_cleanup never_raises_raise)
       (simp add: MSG_ERR_UNSAVED_COMMITS_def)
  have "\<forall>c \<in> set (drop 4 ?cs). never_raises ?X c"
    using download found body by simp
  moreover from assms whole have "fst (run ?cs w) = Some ?X" by simp
  ultimately have "fst (run (take 4 ?cs) w) = Some ?X" by (rule never_raises_run_prefix)
  then show ?thesis by simp
qed

section \<open>Mounts and files across add_image\<close>

lemma run_two_phase:
  assumes "Q (snd (run (take i cs) w))" and "\<forall>c \<in> set (drop i cs). preserves Q c"
  shows "Q (snd (run cs w))"
proof -
  from assms(2) have keep: "preserves Q (run (drop i cs))" by (rule preserves_run)
  have eq: "run cs w = (case run (take i cs) w of
      (None, w') \<Rightarrow> run (drop i cs) w' | (Some x, w') \<Rightarrow> (Some x, w'))"
    using run_append [of "take i cs" "drop i cs" w] by simp
  obtain r w' where pre: "run (take i cs) w = (r, w')" by (cases "run (take i cs) w")
  with assms(1) have "Q w'" by simp
  show ?thesis
  proof (cases r)
    case None
    from keep \<open>Q w'\<close> have "Q (snd (run (drop i cs) w'))" by (simp add: preserves_def)
    with eq pre None show ?thesis by simp
  next
    case (Some x)
    with eq pre \<open>Q w'\<close> show ?thesis by simp
  qed
qed

lemma only_if_simps: "only_if True c = c" "only_if False c = skip"
  by (simp_all add: only_if_def)

lemma snd_try_finally: "snd (try_finally c f w) = snd (f (snd (c w)))"
  by (cases "c w"; cases "f (snd (c w))") (auto simp: try_finally_def split: option.splits)

lemma snd_try_except_raise: "snd (try_except c (\<lambda>err. raise (x err)) w) = snd (c w)"
  by (cases "c w") (auto simp: try_except_def raise_def split: option.splits exn.splits)

lemma add_image_body_mounts:
  "mounts (snd (add_image_body e iso_path no_prompt w)) = mounts w
   \<or> mounts (snd (add_image_body e iso_path no_prompt w)) = DIR_ISO_MOUNT # mounts w"
  unfolding add_image_body_def Let_def
  by (rule run_two_phase [where i = 2])
     (auto simp: ext_def sel_simps split: option.splits
           intro!: preserves_intros preserves_copy_boot_files)

lemma cleanup_iso_mounts:
  "fault e (Umount DIR_ISO_MOUNT) = None \<Longrightarrow>
   mounts (snd (cleanup e [DIR_ISO_MOUNT] [] w)) = remove1 DIR_ISO_MOUNT (mounts w)"
  by (simp add: cleanup_def umount_one_def remove_one_def cmd_defs exn_of_def sel_simps
        split: option.splits fault.splits)

lemma try_block_restores_mounts:
  assumes "fault e (Umount DIR_ISO_MOUNT) = None" and "DIR_ISO_MOUNT \<notin> set M"
  shows "preserves (\<lambda>w. mounts w = M)
     (try_finally (try_except (add_image_body e iso_path no_prompt) (\<lambda>err. raise (x err)))
        (cleanup e [DIR_ISO_MOUNT] []))"
  unfolding preserves_def
proof (intro allI impI)
  fix w :: world
  assume M: "mounts w = M"
  let ?w1 = "snd (add_image_body e iso_path no_prompt w)"
  from add_image_body_mounts [of e iso_path no_prompt w] M
  have "mounts ?w1 = M \<or> mounts ?w1 = DIR_ISO_MOUNT # M" by simp
  with assms(2) have "remove1 DIR_ISO_MOUNT (mounts ?w1) = M"
    by (auto simp: remove1_idem)
  with assms(1) show "mounts (snd (try_finally
      (try_except (add_image_body e iso_path no_prompt) (\<lambda>err. raise (x err)))
      (cleanup e [DIR_ISO_MOUNT] []) w)) = M"
    by (simp add: snd_try_finally snd_try_except_raise cleanup_iso_mounts)
qed

lemma add_image_download_stays:
  assumes "url_scheme e image_path \<noteq> []"
  shows "establishes (add_image e image_path vrf username password no_prompt force)
     (\<lambda>w. FILE_DOWNLOAD \<in> set (paths w))"
proof -
  have not_under: "\<not> under DIR_INSTALLATION FILE_DOWNLOAD"
    by (simp add: under_def DIR_INSTALLATION_def FILE_DOWNLOAD_def)
  have fetch: "establishes
      (try_except (run [print s, ext e Download download]) (\<lambda>err. raise (x err)))
      (\<lambda>w. FILE_DOWNLOAD \<in> set (paths w))" for s x
    by (intro establishes_try_except_raise establishes_run_nth [where i = 1])
       (simp_all add: establishes_ext sel_simps)
  have body: "preserves (\<lambda>w. FILE_DOWNLOAD \<in> set (paths w)) (add_image_body e FILE_DOWNLOAD no_prompt)"
    unfolding add_image_body_def Let_def
    by (rule preserves_run)
       (auto intro!: preserves_intros preserves_copy_boot_files simp: sel_simps)
  have clean: "preserves (\<lambda>w. FILE_DOWNLOAD \<in> set (paths w)) (cleanup e [DIR_ISO_MOUNT] [])"
    by (rule preserves_cleanup) (simp_all add: sel_simps not_under)
  show ?thesis
    unfolding add_image_def Let_def
    by (rule establishes_run_nth [where i = 4])
       (simp_all add: assms only_if_simps fetch body clean preserves_check preserves_try_finally
          preserves_try_except preserves_raise)
qed

(*INFRA-END*)


section \<open>Name resolution: the loop stops at the lowest free suffix\<close>

lemma find_counter_free: "suffixed name (find_counter name installed c) \<notin> set installed"
proof (induction name installed c rule: find_counter.induct)
  case (1 name installed counter)
  show ?case
  proof (cases "suffixed name counter \<in> set installed")
    case True
    with "1.IH" show ?thesis by (simp add: find_counter.simps [of name installed counter])
  next
    case False
    then show ?thesis by (simp add: find_counter.simps [of name installed counter])
  qed
qed

lemma find_counter_lowest:
  "c \<le> n \<Longrightarrow> \<forall>k. c \<le> k \<and> k < n \<longrightarrow> suffixed name k \<in> set installed \<Longrightarrow>
   suffixed name n \<notin> set installed \<Longrightarrow> find_counter name installed c = n"
proof (induction name installed c rule: find_counter.induct)
  case (1 name installed counter)
  show ?case
  proof (cases "counter = n")
    case True
    with "1.prems" show ?thesis by (simp add: find_counter.simps [of name installed n])
  next
    case False
    with "1.prems" have lt: "counter < n" by simp
    with "1.prems" have taken: "suffixed name counter \<in> set installed" by simp
    from lt have "counter + 1 \<le> n" by simp
    moreover from "1.prems" have "\<forall>k. counter + 1 \<le> k \<and> k < n \<longrightarrow> suffixed name k \<in> set installed"
      by simp
    ultimately have "find_counter name installed (counter + 1) = n"
      using taken "1.prems"(3) by (intro "1.IH")
    with taken show ?thesis by (simp add: find_counter.simps [of name installed counter])
  qed
qed

text \<open>
  Claim C9. For every (finite) list of installed image names and every candidate name, the
  numeric-suffix loop stops (\<open>find_counter\<close> is a total function, its termination is
  proved above) and the name that \<open>add_image\<close> goes on with is not an installed one.
\<close>

theorem resolve_name_fresh: "resolve_name name installed \<notin> set installed"
  by (simp add: resolve_name_def find_counter_free)

text \<open>
  Claim C2. If the installed image names are exactly \<open>foo\<close>, \<open>foo.1\<close>, ..., \<open>foo.(N-1)\<close>
  with \<open>N \<ge> 1\<close>, then resolving the candidate \<open>foo\<close> gives exactly \<open>foo.N\<close>.
\<close>

theorem resolve_name_next_suffix:
  assumes "1 \<le> N"
    and "set installed = insert foo (suffixed foo ` {1..<N})"
  shows "resolve_name foo installed = suffixed foo N"
proof -
  from assms(2) have present: "foo \<in> set installed" by simp
  have taken: "\<forall>k. 1 \<le> k \<and> k < N \<longrightarrow> suffixed foo k \<in> set installed"
    using assms(2) by auto
  have free: "suffixed foo N \<notin> set installed"
  proof
    assume "suffixed foo N \<in> set installed"
    with assms(2) suffixed_neq_name [of foo N]
    obtain k where "k \<in> {1..<N}" and "suffixed foo N = suffixed foo k" by auto
    then show False using suffixed_inj [of foo N k] by simp
  qed
  from assms(1) taken free have "find_counter foo installed 1 = N"
    by (rule find_counter_lowest)
  with present show ?thesis by (simp add: resolve_name_def)
qed

theorem resolve_name_next_suffix_witness:
  "(1::int) \<le> 1 \<and> set [''vyos-1.4''] = insert ''vyos-1.4'' (suffixed ''vyos-1.4'' ` {1..<1})
   \<and> resolve_name ''vyos-1.4'' [''vyos-1.4''] = ''vyos-1.4.1''"
proof -
  have h: "set [''vyos-1.4''] = insert ''vyos-1.4'' (suffixed ''vyos-1.4'' ` {1..<(1::int)})"
    by simp
  have "resolve_name ''vyos-1.4'' [''vyos-1.4''] = suffixed ''vyos-1.4'' 1"
    using resolve_name_next_suffix [of 1 "[''vyos-1.4'']" "''vyos-1.4''"] h by simp
  moreover have "suffixed ''vyos-1.4'' 1 = ''vyos-1.4.1''"
    by code_simp
  ultimately show ?thesis using h by simp
qed

section \<open>add_image and compatibility\<close>

text \<open>
  Claim C1. An installed \<open>amd64\<close> system is offered an image whose version data names
  the architecture \<open>arm64\<close>; \<open>--force\<close> is not given. \<open>add_image\<close> returns normally, and
  the image is registered and made the default: no compatibility check stops it.
\<close>

theorem add_image_accepts_other_architecture:
  "current_version_data arm64_iso ''architecture'' = Some ''amd64''
   \<and> (case iso_version_data arm64_iso of Some d \<Rightarrow> d ''architecture'' | None \<Rightarrow> None)
       = Some ''arm64''
   \<and> fst (add_image arm64_iso ''/tmp/new.iso'' None [] [] True False world0) = None
   \<and> ''1.4'' \<in> set (grub_versions
         (snd (add_image arm64_iso ''/tmp/new.iso'' None [] [] True False world0)) ''/'')
   \<and> grub_default (snd (add_image arm64_iso ''/tmp/new.iso'' None [] [] True False world0)) ''/''
       = Some ''1.4''"
proof -
  have ok: "fst (add_image arm64_iso ''/tmp/new.iso'' None [] [] True False world0) = None"
    by (rule add_image_succeeds) (simp_all add: arm64_iso_facts world0_facts)
  from ok add_image_registers [of arm64_iso "''/tmp/new.iso''" None "[]" "[]" True False]
  have "''1.4'' \<in> set (grub_versions
         (snd (add_image arm64_iso ''/tmp/new.iso'' None [] [] True False world0)) ''/'')"
    by (simp add: establishes_def arm64_iso_facts)
  moreover from ok add_image_sets_default [of arm64_iso "''/tmp/new.iso''" None "[]" "[]" False]
  have "grub_default (snd (add_image arm64_iso ''/tmp/new.iso'' None [] [] True False world0)) ''/''
       = Some ''1.4''"
    by (simp add: establishes_def arm64_iso_facts)
  moreover have "current_version_data arm64_iso ''architecture'' = Some ''amd64''"
    and "(case iso_version_data arm64_iso of Some d \<Rightarrow> d ''architecture'' | None \<Rightarrow> None)
       = Some ''arm64''"
    by (simp_all add: arm64_iso_def installed_system_def)
  ultimately show ?thesis using ok by simp
qed

section \<open>add_image and the Default Pointer\<close>

text \<open>
  Claim C10. A run of \<open>add_image\<close> with \<open>no_prompt=True\<close> that returns normally has
  registered the new image and made it the boot loader's default; a run with
  \<open>no_prompt=False\<close> leaves the Default Pointer as it was, however the run ends.
\<close>

theorem add_image_default_follows_no_prompt:
  "(fst (add_image e image_path vrf username password True force w) = None \<longrightarrow>
      grub_default (snd (add_image e image_path vrf username password True force w)) (root_dir e)
        = Some (new_image_name e)
      \<and> new_image_name e
        \<in> set (grub_versions (snd (add_image e image_path vrf username password True force w))
                 (root_dir e)))
   \<and> grub_default (snd (add_image e image_path vrf username password False force w))
       = grub_default w"
proof -
  have "establishes (add_image e image_path vrf username password True force)
          (\<lambda>w. grub_default w (root_dir e) = Some (new_image_name e))"
    by (intro add_image_establishes add_image_body_sets_default preserves_cleanup)
       (simp_all add: sel_simps)
  moreover have "establishes (add_image e image_path vrf username password True force)
          (\<lambda>w. new_image_name e \<in> set (grub_versions w (root_dir e)))"
    by (intro add_image_establishes add_image_body_registers preserves_cleanup)
       (simp_all add: sel_simps)
  moreover have "preserves (\<lambda>w'. grub_default w' = grub_default w)
          (add_image e image_path vrf username password False force)"
    by (rule add_image_keeps_default)
  ultimately show ?thesis by (simp add: establishes_def preserves_def)
qed

theorem add_image_default_follows_no_prompt_witness:
  "fst (add_image installed_system ''/tmp/new.iso'' None [] [] True False world0) = None
   \<and> grub_default (snd (add_image installed_system ''/tmp/new.iso'' None [] [] True False world0))
       ''/'' = Some ''1.4''
   \<and> grub_default (snd (add_image installed_system ''/tmp/new.iso'' None [] [] False False world0))
       ''/'' = Some ''1.3''"
proof -
  have ok: "fst (add_image installed_system ''/tmp/new.iso'' None [] [] True False world0) = None"
    by (rule add_image_succeeds) (simp_all add: installed_system_facts world0_facts)
  with add_image_default_follows_no_prompt
         [of installed_system "''/tmp/new.iso''" None "[]" "[]" False world0]
  show ?thesis by (simp add: installed_system_facts world0_facts)
qed

section \<open>add_image and unsaved changes\<close>

text \<open>
  Claim C8. Whenever the running configuration has unsaved changes and non-interactive
  mode was not requested, \<open>add_image\<close> ends with an exception and has changed nothing
  (no step, destructive or not, has been taken). It ends with the unsaved-changes error
  exactly when the system is installed (not live), there are unsaved changes and
  non-interactive mode was not requested (and the two queries themselves did not fail).
  With \<open>no_prompt\<close> set, what \<open>add_image\<close> does is the same with and without unsaved
  changes.
\<close>

theorem add_image_unsaved_check:
  "(unsaved_commits e \<and> \<not> no_prompt \<longrightarrow>
      fst (add_image e image_path vrf username password no_prompt force w) \<noteq> None
      \<and> snd (add_image e image_path vrf username password no_prompt force w) = w)
   \<and> (fst (add_image e image_path vrf username password no_prompt force w)
         = Some (SystemExit (Exit_msg MSG_ERR_UNSAVED_COMMITS))
       \<longleftrightarrow> unsaved_commits e \<and> \<not> no_prompt \<and> \<not> is_live_boot e
           \<and> fault e Is_live_boot = None \<and> fault e Unsaved_commits = None)
   \<and> add_image (e\<lparr>unsaved_commits := b\<rparr>) image_path vrf username password True force w
       = add_image e image_path vrf username password True force w"
proof (intro conjI)
  show "unsaved_commits e \<and> \<not> no_prompt \<longrightarrow>
      fst (add_image e image_path vrf username password no_prompt force w) \<noteq> None
      \<and> snd (add_image e image_path vrf username password no_prompt force w) = w"
    by (simp add: add_image_def Let_def ext_def only_if_def raise_def skip_def
          split: option.splits)
next
  show "fst (add_image e image_path vrf username password no_prompt force w)
         = Some (SystemExit (Exit_msg MSG_ERR_UNSAVED_COMMITS))
       \<longleftrightarrow> unsaved_commits e \<and> \<not> no_prompt \<and> \<not> is_live_boot e
           \<and> fault e Is_live_boot = None \<and> fault e Unsaved_commits = None"
  proof
    assume "fst (add_image e image_path vrf username password no_prompt force w)
          = Some (SystemExit (Exit_msg MSG_ERR_UNSAVED_COMMITS))"
    then have "fst (run [ext e Is_live_boot id,
                   only_if (is_live_boot e) (raise (SystemExit (Exit_msg MSG_ERR_LIVE))),
                   only_if (\<not> no_prompt) (ext e Unsaved_commits id),
                   only_if (\<not> no_prompt \<and> unsaved_commits e)
                     (raise (SystemExit (Exit_msg MSG_ERR_UNSAVED_COMMITS)))] w)
         = Some (SystemExit (Exit_msg MSG_ERR_UNSAVED_COMMITS))"
      by (rule add_image_unsaved_exit_only_from_check)
    then show "unsaved_commits e \<and> \<not> no_prompt \<and> \<not> is_live_boot e
           \<and> fault e Is_live_boot = None \<and> fault e Unsaved_commits = None"
      by (auto simp: ext_def only_if_def raise_def skip_def exn_of_def MSG_ERR_LIVE_def
            MSG_ERR_UNSAVED_COMMITS_def split: option.splits fault.splits if_splits)
  next
    assume "unsaved_commits e \<and> \<not> no_prompt \<and> \<not> is_live_boot e
           \<and> fault e Is_live_boot = None \<and> fault e Unsaved_commits = None"
    then show "fst (add_image e image_path vrf username password no_prompt force w)
          = Some (SystemExit (Exit_msg MSG_ERR_UNSAVED_COMMITS))"
      by (simp add: add_image_def Let_def ext_def only_if_def raise_def skip_def)
  qed
next
  let ?e = "e\<lparr>unsaved_commits := b\<rparr>"
  have ext_eq: "ext ?e = ext e" by (rule ext_same_fault) simp
  have name: "new_image_name ?e = new_image_name e"
    by (simp add: new_image_name_def default_name_def)
  have root: "root_dir ?e = root_dir e" by (simp add: root_dir_def)
  have copy: "copy_boot_files ?e = copy_boot_files e"
    by (intro ext) (simp add: copy_boot_files_def ext_eq)
  have um: "umount_one ?e = umount_one e" by (intro ext) (simp add: umount_one_def ext_eq)
  have rm: "remove_one ?e = remove_one e"
    by (intro ext) (simp add: remove_one_def ext_eq cong: if_cong)
  have clean: "cleanup ?e = cleanup e" by (intro ext) (simp add: cleanup_def um rm)
  have body: "add_image_body ?e = add_image_body e"
    by (intro ext) (simp add: add_image_body_def name root copy ext_eq)
  show "add_image ?e image_path vrf username password True force w
       = add_image e image_path vrf username password True force w"
    by (simp add: add_image_def body clean ext_eq)
qed

theorem add_image_unsaved_check_witness:
  "unsaved_commits unsaved_system
   \<and> add_image unsaved_system ''/tmp/new.iso'' None [] [] False False world0
       = (Some (SystemExit (Exit_msg MSG_ERR_UNSAVED_COMMITS)), world0)"
proof -
  have facts: "unsaved_commits unsaved_system" "\<not> is_live_boot unsaved_system"
    "fault unsaved_system Is_live_boot = None" "fault unsaved_system Unsaved_commits = None"
    by (simp_all add: unsaved_system_def installed_system_def no_fault_def)
  with add_image_unsaved_check
         [of unsaved_system False "''/tmp/new.iso''" None "[]" "[]" False world0]
  have "fst (add_image unsaved_system ''/tmp/new.iso'' None [] [] False False world0)
          = Some (SystemExit (Exit_msg MSG_ERR_UNSAVED_COMMITS))"
    and "snd (add_image unsaved_system ''/tmp/new.iso'' None [] [] False False world0) = world0"
    by simp_all
  then have "add_image unsaved_system ''/tmp/new.iso'' None [] [] False False world0
       = (Some (SystemExit (Exit_msg MSG_ERR_UNSAVED_COMMITS)), world0)"
    by (simp add: prod_eq_iff)
  with facts(1) show ?thesis by simp
qed

section \<open>add_image and cleanup\<close>

text \<open>
  Claim C5 as stated fails: an image given by URL is downloaded to
  \<^verbatim>\<open>/tmp/vyos_image.iso\<close>; the run succeeds and the file is still there afterwards
  (\<open>cleanup\<close> is called with the mount point only, so what it removes is the
  installation directory).
\<close>

theorem add_image_leaves_download:
  "FILE_DOWNLOAD \<notin> set (paths world0)
   \<and> fst (add_image installed_system ''http://example.net/vyos.iso'' None [] [] True False world0)
       = None
   \<and> FILE_DOWNLOAD \<in> set (paths (snd
        (add_image installed_system ''http://example.net/vyos.iso'' None [] [] True False world0)))"
proof -
  have url: "url_scheme installed_system ''http://example.net/vyos.iso'' \<noteq> []"
    by (simp add: installed_system_def)
  have ok: "fst (add_image installed_system ''http://example.net/vyos.iso'' None [] [] True False
              world0) = None"
    by (rule add_image_succeeds) (simp_all add: installed_system_facts url)
  with add_image_download_stays [OF url, of None "[]" "[]" True False]
  have "FILE_DOWNLOAD \<in> set (paths (snd
        (add_image installed_system ''http://example.net/vyos.iso'' None [] [] True False world0)))"
    by (simp add: establishes_def)
  with ok show ?thesis by (simp add: world0_facts)
qed

text \<open>
  Claim C5 as amended. On every path of \<open>add_image\<close>, normal return or failure at any
  step, the mounts are afterwards what they were before: the source ISO mount point is
  not left mounted. This holds provided the unmount in \<open>cleanup\<close> does not itself fail
  (\<open>cleanup\<close> only reports such a failure) and the mount point was free before the run.
\<close>

theorem add_image_unmounts_iso:
  assumes "fault e (Umount DIR_ISO_MOUNT) = None" and "DIR_ISO_MOUNT \<notin> set (mounts w)"
  shows "mounts (snd (add_image e image_path vrf username password no_prompt force w)) = mounts w"
proof -
  have "preserves (\<lambda>w'. mounts w' = mounts w)
          (add_image e image_path vrf username password no_prompt force)"
    unfolding add_image_def Let_def
    by (rule preserves_run)
       (auto intro!: preserves_intros preserves_run try_block_restores_mounts assms
             simp: sel_simps)
  then show ?thesis by (simp add: preserves_def)
qed

theorem add_image_unmounts_iso_witness:
  "fault installed_system (Umount DIR_ISO_MOUNT) = None \<and> DIR_ISO_MOUNT \<notin> set (mounts world0)
   \<and> mounts (snd (add_image installed_system ''/tmp/new.iso'' None [] [] True False world0)) = []"
proof -
  have h1: "fault installed_system (Umount DIR_ISO_MOUNT) = None"
    by (simp add: installed_system_facts)
  have h2: "DIR_ISO_MOUNT \<notin> set (mounts world0)" by (simp add: world0_facts)
  from add_image_unmounts_iso [OF h1 h2, of "''/tmp/new.iso''" None "[]" "[]" True False]
  show ?thesis using h1 h2 by (simp add: world0_facts)
qed

(*CLAIMS-END*)

end
